theory Spec2Isabelle
  imports Main "HOL-Library.Word"
begin

unbundle bit_operations_syntax

section \<open>The archive engine (Common/Serialization/IArchive.h)\<close>

type_synonym u16 = "16 word"
type_synonym u32 = "32 word"

subsection \<open>Hint flags, archive flags, archive versions\<close>

text \<open>\<^verbatim>\<open>enum ESerialHint\<close>: parameter hint flags, combined bitwise in a \<^verbatim>\<open>u32\<close>.\<close>

definition SH_HexDisplay :: u32 where "SH_HexDisplay = 0x1"
definition SH_Optional :: u32 where "SH_Optional = 0x2"
definition SH_NeverSave :: u32 where "SH_NeverSave = 0x4"
definition SH_AlwaysSave :: u32 where "SH_AlwaysSave = 0x8"
definition SH_Attribute :: u32 where "SH_Attribute = 0x10"
definition SH_IgnoreName :: u32 where "SH_IgnoreName = 0x20"

text \<open>\<^verbatim>\<open>enum EArchiveFlags\<close>.\<close>

definition AF_Reader :: u32 where "AF_Reader = 0x1"
definition AF_Writer :: u32 where "AF_Writer = 0x2"
definition AF_Text :: u32 where "AF_Text = 0x4"
definition AF_Binary :: u32 where "AF_Binary = 0x8"
definition AF_NoSkipping :: u32 where "AF_NoSkipping = 0x10"

text \<open>\<^verbatim>\<open>enum EArchiveVersion\<close>, compared with the \<^verbatim>\<open>u16\<close> archive version.\<close>

definition eArVer_Initial :: u16 where "eArVer_Initial = 0"
definition eArVer_32BitBinarySize :: u16 where "eArVer_32BitBinarySize = 1"
definition eArVer_Refactor :: u16 where "eArVer_Refactor = 2"

subsection \<open>Parameters, the parameter stack and the archive state\<close>

text \<open>
  What the templates know of a value type at compile time: \<^verbatim>\<open>typeid(ValType).hash_code()\<close>,
  \<^verbatim>\<open>sizeof(ValType)\<close>, the macro \<^verbatim>\<open>SUPPORTS_DEFAULT_VALUES\<close> (the type is no pointer and no
  container, is copy-assignable and has \<^verbatim>\<open>operator==\<close>) and \<^verbatim>\<open>std::is_polymorphic_v<ValType>\<close>.
\<close>

record ValType =
  hash_code :: nat
  sizeof :: nat
  SUPPORTS_DEFAULT_VALUES :: bool
  is_polymorphic :: bool

text \<open>
  \<^verbatim>\<open>TSerialParameter<ValType>\<close>. \<open>rValue\<close> is the live value the reference member denotes and
  \<open>pValue\<close> its address (\<^verbatim>\<open>&Param.rValue\<close>); \<open>pDefaultValue\<close> is \<open>None\<close> for \<^verbatim>\<open>nullptr\<close>.
\<close>

record 'v TSerialParameter =
  pkName :: string
  rValue :: 'v
  pValue :: nat
  HintFlags :: u32
  pDefaultValue :: "'v option"

text \<open>
  \<^verbatim>\<open>IArchive::SParmStackEntry\<close>; its \<^verbatim>\<open>HintFlags\<close> member is \<open>EntryHintFlags\<close> here, the name
  \<open>HintFlags\<close> being the parameter's.
\<close>

record SParmStackEntry =
  TypeID :: nat
  TypeSize :: nat
  pDataPointer :: nat
  EntryHintFlags :: u32

text \<open>
  Every call the engine makes through its pure virtual interface (the format backend) and
  into the class of a pointee, in the order made.
\<close>

datatype call =
    ParamBegin_call string u32
  | ParamEnd_call
  | PreSerializePointer_call "nat option" u32
  | SerializePrimitive_call u32
  | SerializePrimitive_at_call nat u32
  | Serialize_call nat
  | New_call
  | ArchiveConstructor_call u32

text \<open>
  The state of an \<^verbatim>\<open>IArchive\<close>: its members, the state \<open>world\<close> behind the virtual interface
  (the document being read or written, and the objects pointers refer to), and the
  record \<open>calls\<close> of the calls made so far, oldest first.
\<close>

record 'w IArchive =
  mArchiveVersion :: u16
  mFileVersion :: u16
  mArchiveFlags :: u32
  mParmStack :: "SParmStackEntry list"
  world :: 'w
  calls :: "call list"

datatype error = AssertionFailed string | NullDereference

definition IsReader :: "'w IArchive \<Rightarrow> bool" where
  "IsReader A = (mArchiveFlags A AND AF_Reader \<noteq> 0)"

definition IsWriter :: "'w IArchive \<Rightarrow> bool" where
  "IsWriter A = (mArchiveFlags A AND AF_Writer \<noteq> 0)"

definition ArchiveVersion :: "'w IArchive \<Rightarrow> u16" where
  "ArchiveVersion A = mArchiveVersion A"

subsection \<open>\<^verbatim>\<open>FindParentObject\<close>\<close>

text \<open>
  The loop \<^verbatim>\<open>for (int ParmIdx = ...; ParmIdx >= 0; ParmIdx--)\<close> from a given index on.
\<close>

function FindParentObject_from :: "SParmStackEntry list \<Rightarrow> nat \<Rightarrow> int \<Rightarrow> nat option" where
  "FindParentObject_from stack tid ParmIdx =
     (if ParmIdx \<ge> 0 then
        (let kEntry = stack ! nat ParmIdx in
         if TypeID kEntry = tid then Some (pDataPointer kEntry)
         else FindParentObject_from stack tid (ParmIdx - 1))
      else None)"
  by pat_completeness auto
termination
  by (relation "measure (\<lambda>(stack, tid, ParmIdx). nat (ParmIdx + 1))") auto

declare FindParentObject_from.simps [simp del]

text \<open>
  \<^verbatim>\<open>int ParmIdx = mParmStack.size() - 2\<close>: the unsigned difference wraps and is then read
  as a 32-bit signed \<^verbatim>\<open>int\<close>. \<open>tid\<close> is \<^verbatim>\<open>typeid(ValType).hash_code()\<close> of the requested type;
  \<open>None\<close> is \<^verbatim>\<open>nullptr\<close>.
\<close>

definition FindParentObject :: "'w IArchive \<Rightarrow> nat \<Rightarrow> nat option" where
  "FindParentObject A tid =
     FindParentObject_from (mParmStack A) tid
       (sint ((word_of_nat (length (mParmStack A)) :: 32 word) - 2))"

subsection \<open>The virtual interface and the class of a pointee\<close>

text \<open>
  The pure virtual functions of \<^verbatim>\<open>IArchive\<close>, implemented by a format backend that is not
  part of these sources, as functions on the world. \<open>SerializePrimitive\<close> is the overload
  for the value type \<open>'v\<close>; \<open>SerializePrimitive_at\<close> is \<^verbatim>\<open>SerializePrimitive(*p, Flags)\<close> on the
  object at an address. \<^verbatim>\<open>PreSerializePointer\<close> takes the pointer by reference, so it
  returns the pointer next to its result.
\<close>

record ('w, 'v) Backend =
  ParamBegin :: "string \<Rightarrow> u32 \<Rightarrow> 'w \<Rightarrow> bool \<times> 'w"
  ParamEnd :: "'w \<Rightarrow> 'w"
  PreSerializePointer :: "nat option \<Rightarrow> u32 \<Rightarrow> 'w \<Rightarrow> (bool \<times> nat option) \<times> 'w"
  SerializePrimitive :: "'v \<Rightarrow> u32 \<Rightarrow> 'w \<Rightarrow> 'v \<times> 'w"
  SerializePrimitive_at :: "nat \<Rightarrow> u32 \<Rightarrow> 'w \<Rightarrow> 'w"

text \<open>
  What the engine asks of the class \<^verbatim>\<open>ValType\<close> behind a pointer: \<^verbatim>\<open>new ValType\<close>, the static
  \<^verbatim>\<open>ArchiveConstructor\<close> (which may return \<^verbatim>\<open>nullptr\<close>), the virtual \<^verbatim>\<open>Type()\<close> of the object
  at an address, and the \<^verbatim>\<open>Serialize\<close> member or global function run on that object.
\<close>

record 'w Class =
  New :: "'w \<Rightarrow> nat \<times> 'w"
  ArchiveConstructor :: "u32 \<Rightarrow> 'w \<Rightarrow> nat option \<times> 'w"
  Type :: "nat \<Rightarrow> 'w \<Rightarrow> u32"
  Serialize :: "nat \<Rightarrow> 'w \<Rightarrow> 'w"

text \<open>Each call is made on the world and entered in \<open>calls\<close>.\<close>

definition do_ParamBegin ::
  "('w, 'v) Backend \<Rightarrow> string \<Rightarrow> u32 \<Rightarrow> 'w IArchive \<Rightarrow> bool \<times> 'w IArchive" where
  "do_ParamBegin B name flags A =
     (let (r, w) = ParamBegin B name flags (world A)
      in (r, A\<lparr>world := w, calls := calls A @ [ParamBegin_call name flags]\<rparr>))"

definition do_ParamEnd :: "('w, 'v) Backend \<Rightarrow> 'w IArchive \<Rightarrow> 'w IArchive" where
  "do_ParamEnd B A = A\<lparr>world := ParamEnd B (world A), calls := calls A @ [ParamEnd_call]\<rparr>"

definition do_PreSerializePointer ::
  "('w, 'v) Backend \<Rightarrow> nat option \<Rightarrow> u32 \<Rightarrow> 'w IArchive \<Rightarrow> (bool \<times> nat option) \<times> 'w IArchive"
  where
  "do_PreSerializePointer B p flags A =
     (let (r, w) = PreSerializePointer B p flags (world A)
      in (r, A\<lparr>world := w, calls := calls A @ [PreSerializePointer_call p flags]\<rparr>))"

definition do_SerializePrimitive ::
  "('w, 'v) Backend \<Rightarrow> 'v \<Rightarrow> u32 \<Rightarrow> 'w IArchive \<Rightarrow> 'v \<times> 'w IArchive" where
  "do_SerializePrimitive B v flags A =
     (let (v', w) = SerializePrimitive B v flags (world A)
      in (v', A\<lparr>world := w, calls := calls A @ [SerializePrimitive_call flags]\<rparr>))"

definition do_SerializePrimitive_at ::
  "('w, 'v) Backend \<Rightarrow> nat \<Rightarrow> u32 \<Rightarrow> 'w IArchive \<Rightarrow> 'w IArchive" where
  "do_SerializePrimitive_at B a flags A =
     A\<lparr>world := SerializePrimitive_at B a flags (world A),
       calls := calls A @ [SerializePrimitive_at_call a flags]\<rparr>"

definition do_Serialize :: "'w Class \<Rightarrow> nat \<Rightarrow> 'w IArchive \<Rightarrow> 'w IArchive" where
  "do_Serialize C a A =
     A\<lparr>world := Serialize C a (world A), calls := calls A @ [Serialize_call a]\<rparr>"

definition do_New :: "'w Class \<Rightarrow> 'w IArchive \<Rightarrow> nat option \<times> 'w IArchive" where
  "do_New C A =
     (let (a, w) = New C (world A)
      in (Some a, A\<lparr>world := w, calls := calls A @ [New_call]\<rparr>))"

definition do_ArchiveConstructor ::
  "'w Class \<Rightarrow> u32 \<Rightarrow> 'w IArchive \<Rightarrow> nat option \<times> 'w IArchive" where
  "do_ArchiveConstructor C t A =
     (let (p, w) = ArchiveConstructor C t (world A)
      in (p, A\<lparr>world := w, calls := calls A @ [ArchiveConstructor_call t]\<rparr>))"

subsection \<open>Default values\<close>

text \<open>
  \<^verbatim>\<open>SerialParameter\<close>, both overloads: the default value is recorded only for a type that
  supports default values. \<open>addr\<close> is the address of the value.
\<close>

definition SerialParameter ::
  "ValType \<Rightarrow> string \<Rightarrow> 'v \<Rightarrow> nat \<Rightarrow> u32 \<Rightarrow> 'v \<Rightarrow> 'v TSerialParameter" where
  "SerialParameter T name v addr flags rkDefaultValue =
     \<lparr>pkName = name, rValue = v, pValue = addr, HintFlags = flags,
      pDefaultValue = (if SUPPORTS_DEFAULT_VALUES T then Some rkDefaultValue else None)\<rparr>"

definition ParameterMatchesDefault :: "ValType \<Rightarrow> 'v TSerialParameter \<Rightarrow> bool" where
  "ParameterMatchesDefault T kParameter =
     (if SUPPORTS_DEFAULT_VALUES T then
        (case pDefaultValue kParameter of
           None \<Rightarrow> False
         | Some d \<Rightarrow> rValue kParameter = d)
      else False)"

definition InitParameterToDefault ::
  "ValType \<Rightarrow> 'v TSerialParameter \<Rightarrow> bool \<times> 'v TSerialParameter" where
  "InitParameterToDefault T Param =
     (if SUPPORTS_DEFAULT_VALUES T then
        (case pDefaultValue Param of
           Some d \<Rightarrow> (True, Param\<lparr>rValue := d\<rparr>)
         | None \<Rightarrow> (False, Param))
      else (False, Param))"

subsection \<open>\<^verbatim>\<open>ShouldSerializeParameter\<close> and the parameter stack\<close>

definition ShouldSerializeParameter :: "ValType \<Rightarrow> 'v TSerialParameter \<Rightarrow> 'w IArchive \<Rightarrow> bool" where
  "ShouldSerializeParameter T Param A =
     (if mArchiveFlags A AND AF_NoSkipping \<noteq> 0 then True
      else if IsWriter A \<and> HintFlags Param AND SH_NeverSave \<noteq> 0 then False
      else if IsWriter A \<and> HintFlags Param AND SH_Optional \<noteq> 0
              \<and> HintFlags Param AND SH_AlwaysSave = 0
              \<and> ParameterMatchesDefault T Param then False
      else True)"

text \<open>
  \<open>DEBUG\<close> is the build's \<^verbatim>\<open>_DEBUG\<close>: the checks between \<^verbatim>\<open>#if _DEBUG\<close> and \<^verbatim>\<open>#endif\<close> are
  compiled only then. A failed \<^verbatim>\<open>ASSERT\<close> ends the run with \<open>AssertionFailed\<close>.
\<close>

definition PushParameter ::
  "bool \<Rightarrow> ValType \<Rightarrow> 'v TSerialParameter \<Rightarrow> 'w IArchive \<Rightarrow> error + 'w IArchive" where
  "PushParameter DEBUG T Param A =
     (if DEBUG \<and> length (mParmStack A) > 0
         \<and> \<not> (EntryHintFlags (last (mParmStack A)) AND SH_Attribute = 0)
      then Inl (AssertionFailed ''(mParmStack.back().HintFlags & SH_Attribute) == 0'')
      else Inr (A\<lparr>mParmStack := mParmStack A @
                  [\<lparr>TypeID = hash_code T, TypeSize = sizeof T,
                    pDataPointer = pValue Param, EntryHintFlags = HintFlags Param\<rparr>]\<rparr>))"

definition PopParameter ::
  "bool \<Rightarrow> ValType \<Rightarrow> 'v TSerialParameter \<Rightarrow> 'w IArchive \<Rightarrow> error + 'w IArchive" where
  "PopParameter DEBUG T Param A =
     (if DEBUG \<and> \<not> length (mParmStack A) > 0
      then Inl (AssertionFailed ''mParmStack.size() > 0'')
      else if DEBUG \<and> \<not> TypeID (last (mParmStack A)) = hash_code T
      then Inl (AssertionFailed ''kEntry.TypeID == typeid(ValType).hash_code()'')
      else if DEBUG \<and> \<not> pDataPointer (last (mParmStack A)) = pValue Param
      then Inl (AssertionFailed ''kEntry.pDataPointer == &Param.rValue'')
      else Inr (A\<lparr>mParmStack := butlast (mParmStack A)\<rparr>))"

subsection \<open>\<^verbatim>\<open>operator<<\<close> for a primitive value\<close>

text \<open>
  The result is the live value after the call, with the archive. \<^verbatim>\<open>ParamBegin\<close> is called
  only when \<open>ShouldSerializeParameter\<close> holds (\<^verbatim>\<open>&&\<close>).
\<close>

definition operator_shl_Primitive ::
  "bool \<Rightarrow> ('w, 'v) Backend \<Rightarrow> ValType \<Rightarrow> 'v TSerialParameter \<Rightarrow> 'w IArchive
     \<Rightarrow> error + ('v \<times> 'w IArchive)" where
  "operator_shl_Primitive DEBUG B T rParam A =
     (case PushParameter DEBUG T rParam A of
        Inl e \<Rightarrow> Inl e
      | Inr A1 \<Rightarrow>
         (let (entered, A2) =
                (if ShouldSerializeParameter T rParam A1
                 then do_ParamBegin B (pkName rParam) (HintFlags rParam) A1
                 else (False, A1));
              (v, A3) =
                (if entered then
                   (let (v', A') = do_SerializePrimitive B (rValue rParam) (HintFlags rParam) A2
                    in (v', do_ParamEnd B A'))
                 else if IsReader A2 then (rValue (snd (InitParameterToDefault T rParam)), A2)
                 else (rValue rParam, A2))
          in case PopParameter DEBUG T rParam A3 of
               Inl e \<Rightarrow> Inl e
             | Inr A4 \<Rightarrow> Inr (v, A4)))"

subsection \<open>\<^verbatim>\<open>operator<<\<close> for pointers\<close>

text \<open>
  What the pointer overloads need beside the archive: the build's \<^verbatim>\<open>_DEBUG\<close>, what the
  templates know of \<^verbatim>\<open>u32\<close> (the type of the \<^verbatim>\<open>Type\<close> attribute), and the local variable
  \<^verbatim>\<open>Type\<close>: its address and, where it is declared without an initialiser, its content.
\<close>

record Env =
  DEBUG :: bool
  u32_type :: ValType
  Type_addr :: nat
  Type_init :: u32

text \<open>
  The block the three overloads for a pointer to a non-abstract class share:
  \<^verbatim>\<open>if (ArchiveVersion() < eArVer_Refactor && IsReader() && std::is_polymorphic_v<ValType>)
  { u32 Type; *this << SerialParameter("Type", Type, SH_Attribute); }\<close>.
  The value read is dropped with the local.
\<close>

definition serialize_legacy_Type ::
  "Env \<Rightarrow> ('w, u32) Backend \<Rightarrow> ValType \<Rightarrow> 'w IArchive \<Rightarrow> error + 'w IArchive" where
  "serialize_legacy_Type E B T A =
     (if ArchiveVersion A < eArVer_Refactor \<and> IsReader A \<and> is_polymorphic T then
        (case operator_shl_Primitive (DEBUG E) B (u32_type E)
                (SerialParameter (u32_type E) ''Type'' (Type_init E) (Type_addr E) SH_Attribute 0) A of
           Inl e \<Rightarrow> Inl e
         | Inr (Type', A') \<Rightarrow> Inr A')
      else Inr A)"

text \<open>
  In the pointer overloads \<open>T\<close> describes the class \<^verbatim>\<open>ValType\<close> and \<open>PT\<close> the parameter's type
  \<^verbatim>\<open>ValType*\<close>, for which \<^verbatim>\<open>SUPPORTS_DEFAULT_VALUES\<close> is false. The parameter's value is the
  pointer, \<open>None\<close> for \<^verbatim>\<open>nullptr\<close>; the result is the pointer after the call, with the archive.
\<close>

definition operator_shl_Primitive_ptr ::
  "Env \<Rightarrow> ('w, u32) Backend \<Rightarrow> 'w Class \<Rightarrow> ValType \<Rightarrow> ValType \<Rightarrow> nat option TSerialParameter
     \<Rightarrow> 'w IArchive \<Rightarrow> error + (nat option \<times> 'w IArchive)" where
  "operator_shl_Primitive_ptr E B C T PT rParam A =
     (if \<not> (\<not> (mArchiveFlags A AND AF_Writer \<noteq> 0) \<or> rValue rParam \<noteq> None)
      then Inl (AssertionFailed ''!(mArchiveFlags & AF_Writer) || rParam.rValue != nullptr'')
      else
       (case PushParameter (DEBUG E) PT rParam A of
          Inl e \<Rightarrow> Inl e
        | Inr A1 \<Rightarrow>
           (case
              (if ShouldSerializeParameter (PT\<lparr>SUPPORTS_DEFAULT_VALUES := False\<rparr>) rParam A1 then
                 (let (entered, A2) = do_ParamBegin B (pkName rParam) (HintFlags rParam) A1 in
                  if entered then
                    (case serialize_legacy_Type E B T A2 of
                       Inl e \<Rightarrow> Inl e
                     | Inr A3 \<Rightarrow>
                        (let ((ok, p), A4) =
                               do_PreSerializePointer B (rValue rParam) (HintFlags rParam) A3;
                             (p', A5) =
                               (if ok then
                                  (let (p1, A') =
                                         (if p = None \<and> mArchiveFlags A4 AND AF_Reader \<noteq> 0
                                          then do_New C A4 else (p, A4))
                                   in case p1 of
                                        None \<Rightarrow> (p1, A')
                                      | Some a \<Rightarrow>
                                          (p1, do_SerializePrimitive_at B a (HintFlags rParam) A'))
                                else if IsReader A4 then (None, A4)
                                else (p, A4))
                         in Inr (p', do_ParamEnd B A5)))
                  else Inr (rValue rParam, A2))
               else Inr (rValue rParam, A1)) of
              Inl e \<Rightarrow> Inl e
            | Inr (p, A6) \<Rightarrow>
               (case PopParameter (DEBUG E) PT rParam A6 of
                  Inl e \<Rightarrow> Inl e
                | Inr A7 \<Rightarrow> Inr (p, A7)))))"

text \<open>
  The overload for a class with a global \<^verbatim>\<open>Serialize\<close> calls \<^verbatim>\<open>ParamBegin(rParam.pkName)\<close>
  with the name alone (no hint flags are passed: \<open>0\<close> here) and
  \<^verbatim>\<open>PreSerializePointer(rParam.rValue, rParam.HintFlags, rParam.HintFlags)\<close>.
\<close>

definition operator_shl_Global_ptr ::
  "Env \<Rightarrow> ('w, u32) Backend \<Rightarrow> 'w Class \<Rightarrow> ValType \<Rightarrow> ValType \<Rightarrow> nat option TSerialParameter
     \<Rightarrow> 'w IArchive \<Rightarrow> error + (nat option \<times> 'w IArchive)" where
  "operator_shl_Global_ptr E B C T PT rParam A =
     (if \<not> (\<not> IsWriter A \<or> rValue rParam \<noteq> None)
      then Inl (AssertionFailed ''!IsWriter() || rParam.rValue != nullptr'')
      else
       (case PushParameter (DEBUG E) PT rParam A of
          Inl e \<Rightarrow> Inl e
        | Inr A1 \<Rightarrow>
           (case
              (if ShouldSerializeParameter (PT\<lparr>SUPPORTS_DEFAULT_VALUES := False\<rparr>) rParam A1 then
                 (let (entered, A2) = do_ParamBegin B (pkName rParam) 0 A1 in
                  if entered then
                    (case serialize_legacy_Type E B T A2 of
                       Inl e \<Rightarrow> Inl e
                     | Inr A3 \<Rightarrow>
                        (let ((ok, p), A4) =
                               do_PreSerializePointer B (rValue rParam) (HintFlags rParam) A3;
                             (p', A5) =
                               (if ok then
                                  (let (p1, A') =
                                         (if p = None \<and> IsReader A4
                                          then do_New C A4 else (p, A4))
                                   in case p1 of
                                        None \<Rightarrow> (p1, A')
                                      | Some a \<Rightarrow> (p1, do_Serialize C a A'))
                                else if IsReader A4 then (None, A4)
                                else (p, A4))
                         in Inr (p', do_ParamEnd B A5)))
                  else Inr (rValue rParam, A2))
               else Inr (rValue rParam, A1)) of
              Inl e \<Rightarrow> Inl e
            | Inr (p, A6) \<Rightarrow>
               (case PopParameter (DEBUG E) PT rParam A6 of
                  Inl e \<Rightarrow> Inl e
                | Inr A7 \<Rightarrow> Inr (p, A7)))))"

text \<open>The overload for a non-abstract class with a \<^verbatim>\<open>Serialize\<close> method.\<close>

definition operator_shl_Member_ptr ::
  "Env \<Rightarrow> ('w, u32) Backend \<Rightarrow> 'w Class \<Rightarrow> ValType \<Rightarrow> ValType \<Rightarrow> nat option TSerialParameter
     \<Rightarrow> 'w IArchive \<Rightarrow> error + (nat option \<times> 'w IArchive)" where
  "operator_shl_Member_ptr E B C T PT rParam A =
     (case PushParameter (DEBUG E) PT rParam A of
        Inl e \<Rightarrow> Inl e
      | Inr A1 \<Rightarrow>
         (case
            (if ShouldSerializeParameter (PT\<lparr>SUPPORTS_DEFAULT_VALUES := False\<rparr>) rParam A1 then
               (let (entered, A2) = do_ParamBegin B (pkName rParam) (HintFlags rParam) A1 in
                if entered then
                  (case serialize_legacy_Type E B T A2 of
                     Inl e \<Rightarrow> Inl e
                   | Inr A3 \<Rightarrow>
                      (let ((ok, p), A4) =
                             do_PreSerializePointer B (rValue rParam) (HintFlags rParam) A3;
                           (p', A5) =
                             (if ok then
                                (let (p1, A') =
                                       (if p = None \<and> IsReader A4
                                        then do_New C A4 else (p, A4))
                                 in case p1 of
                                      None \<Rightarrow> (p1, A')
                                    | Some a \<Rightarrow> (p1, do_Serialize C a A'))
                              else if IsReader A4 then (None, A4)
                              else (p, A4))
                       in Inr (p', do_ParamEnd B A5)))
                else Inr (rValue rParam, A2))
             else Inr (rValue rParam, A1)) of
            Inl e \<Rightarrow> Inl e
          | Inr (p, A6) \<Rightarrow>
             (case PopParameter (DEBUG E) PT rParam A6 of
                Inl e \<Rightarrow> Inl e
              | Inr A7 \<Rightarrow> Inr (p, A7))))"

subsection \<open>\<^verbatim>\<open>operator<<\<close> for a pointer to an abstract class\<close>

text \<open>\<^verbatim>\<open>InstantiateAbstractObject\<close>, both variants: only a reader may instantiate.\<close>

definition InstantiateAbstractObject ::
  "'w Class \<Rightarrow> u32 \<Rightarrow> 'w IArchive \<Rightarrow> error + (nat option \<times> 'w IArchive)" where
  "InstantiateAbstractObject C t A =
     (if \<not> IsReader A then Inl (AssertionFailed ''IsReader()'')
      else Inr (do_ArchiveConstructor C t A))"

text \<open>
  \<^verbatim>\<open>ObjectType\<close>, the result type of \<^verbatim>\<open>Type()\<close>, is \<^verbatim>\<open>u32\<close>, and \<^verbatim>\<open>ObjectType()\<close> is \<open>0\<close>. A writer
  calls \<^verbatim>\<open>rParam.rValue->Type()\<close> without a test: on \<^verbatim>\<open>nullptr\<close> that is \<open>NullDereference\<close>.
\<close>

definition operator_shl_Abstract_ptr ::
  "Env \<Rightarrow> ('w, u32) Backend \<Rightarrow> 'w Class \<Rightarrow> ValType \<Rightarrow> nat option TSerialParameter
     \<Rightarrow> 'w IArchive \<Rightarrow> error + (nat option \<times> 'w IArchive)" where
  "operator_shl_Abstract_ptr E B C PT rParam A =
     (case PushParameter (DEBUG E) PT rParam A of
        Inl e \<Rightarrow> Inl e
      | Inr A1 \<Rightarrow>
         (case
            (if ShouldSerializeParameter (PT\<lparr>SUPPORTS_DEFAULT_VALUES := False\<rparr>) rParam A1 then
               (let (entered, A2) = do_ParamBegin B (pkName rParam) (HintFlags rParam) A1 in
                if entered then
                  (let ((ok, p), A3) =
                         do_PreSerializePointer B (rValue rParam) (HintFlags rParam) A2 in
                   case
                     (if ok then
                        (case
                           (if IsWriter A3 then
                              (case p of
                                 None \<Rightarrow> Inl NullDereference
                               | Some a \<Rightarrow>
                                  (case operator_shl_Primitive (DEBUG E) B (u32_type E)
                                          (SerialParameter (u32_type E) ''Type''
                                             (Type C a (world A3)) (Type_addr E) SH_Attribute 0) A3 of
                                     Inl e \<Rightarrow> Inl e
                                   | Inr (Type', A') \<Rightarrow> Inr (p, A')))
                            else
                              (let Type0 = (case p of Some a \<Rightarrow> Type C a (world A3) | None \<Rightarrow> 0);
                                   TypeCopy = Type0 in
                               case operator_shl_Primitive (DEBUG E) B (u32_type E)
                                      (SerialParameter (u32_type E) ''Type''
                                         Type0 (Type_addr E) SH_Attribute 0) A3 of
                                 Inl e \<Rightarrow> Inl e
                               | Inr (Type', A') \<Rightarrow>
                                  if IsReader A' \<and> p = None then InstantiateAbstractObject C Type' A'
                                  else if p \<noteq> None then
                                    (if Type' = TypeCopy then Inr (p, A')
                                     else Inl (AssertionFailed ''Type == TypeCopy''))
                                  else Inr (p, A'))) of
                           Inl e \<Rightarrow> Inl e
                         | Inr (p1, A4) \<Rightarrow>
                            (case p1 of
                               Some a \<Rightarrow> Inr (p1, do_Serialize C a A4)
                             | None \<Rightarrow> Inr (p1, A4)))
                      else if IsReader A3 then Inr (None, A3)
                      else Inr (p, A3)) of
                     Inl e \<Rightarrow> Inl e
                   | Inr (p2, A5) \<Rightarrow> Inr (p2, do_ParamEnd B A5))
                else Inr (rValue rParam, A2))
             else Inr (rValue rParam, A1)) of
            Inl e \<Rightarrow> Inl e
          | Inr (p, A6) \<Rightarrow>
             (case PopParameter (DEBUG E) PT rParam A6 of
                Inl e \<Rightarrow> Inl e
              | Inr A7 \<Rightarrow> Inr (p, A7))))"

section \<open>The resource store (Core/GameProject/CResourceStore.cpp)\<close>

subsection \<open>Entries, payloads and the store\<close>

type_synonym byte = "8 word"
type_synonym CAssetID = nat
type_synonym EResType = nat
type_synonym EGame = nat

text \<open>\<^verbatim>\<open>enum EResEntryFlag\<close> (CResourceEntry.h).\<close>

definition eREF_NeedsRecook :: u32 where "eREF_NeedsRecook = 0x1"
definition eREF_Transient :: u32 where "eREF_Transient = 0x2"
definition eREF_HasThumbnail :: u32 where "eREF_HasThumbnail = 0x4"
definition eREF_SavedFlags :: u32 where "eREF_SavedFlags = eREF_NeedsRecook OR eREF_HasThumbnail"

text \<open>
  Modelled from the spec: the payload class \<^verbatim>\<open>CResource\<close>, which is not among the sources.
  Ownership of a payload is shared between its entry and every holder of a reference, and
  the payload publishes a reference count (spec, section 5); payloads hold references to
  one another, so that unloading one can drop the last reference to another (section 4.5).
  \<open>mRefCount\<close> is the published count, \<open>held\<close> the entries to whose payloads this payload
  holds a reference; \<^verbatim>\<open>IsReferenced()\<close> is a count above zero.
\<close>

record CResource =
  mRefCount :: nat
  held :: "CAssetID list"

definition IsReferenced :: "CResource \<Rightarrow> bool" where
  "IsReferenced r = (mRefCount r > 0)"

text \<open>
  \<^verbatim>\<open>CResourceEntry\<close> (CResourceEntry.h). \<open>mpResource\<close> is \<open>None\<close> for \<^verbatim>\<open>nullptr\<close>. An entry pointer
  is modelled by the key under which the store holds the entry, and \<^verbatim>\<open>ID()\<close> of the entry
  is that key. Of the directory tree (\<^verbatim>\<open>CVirtualDirectory\<close>, not among the sources) the store's
  list of transient roots is modelled, each root by its name; of \<open>mpDirectory\<close> the path given
  to the constructor is kept.
\<close>

record CResourceEntry =
  mpResource :: "CResource option"
  mType :: EResType
  mDirectory :: string
  mName :: string
  mFlags :: u32

definition IsLoaded :: "CResourceEntry \<Rightarrow> bool" where
  "IsLoaded e = (mpResource e \<noteq> None)"

definition IsTransient :: "CResourceEntry \<Rightarrow> bool" where
  "IsTransient e = (mFlags e AND eREF_Transient \<noteq> 0)"

text \<open>
  Modelled from the spec: the constructor \<^verbatim>\<open>CResourceEntry(pStore, rkID, rkDir, rkFilename,
  Type, Transient)\<close> declared in CResourceEntry.h (CResourceEntry.cpp is not among the
  sources). A new entry has no payload (the payload is created on \<^verbatim>\<open>Load()\<close>, section 3)
  and carries the \<^verbatim>\<open>Transient\<close> flag when asked to. It refers to the directory node of its
  path (section 3). The store hands out directory nodes through \<open>GetVirtualDirectory\<close>, the
  one place where a transient root is created; the constructor, which is given the store,
  the path and the \<^verbatim>\<open>Transient\<close> flag, has its node from there with \<^verbatim>\<open>AllowCreate\<close> set. What that
  call does to the store is part of registering an entry (\<open>RegisterResource\<close>,
  \<open>RegisterTransientResource\<close> below).
\<close>

definition new_CResourceEntry :: "string \<Rightarrow> string \<Rightarrow> EResType \<Rightarrow> bool \<Rightarrow> CResourceEntry" where
  "new_CResourceEntry rkDir rkFilename ResType Transient =
     \<lparr>mpResource = None, mType = ResType, mDirectory = rkDir, mName = rkFilename,
      mFlags = (if Transient then eREF_Transient else 0)\<rparr>"

text \<open>\<^verbatim>\<open>SDatabaseResource\<close>, the record of the resource database (\<open>SerializeResourceDatabase\<close>).\<close>

record SDatabaseResource =
  ID :: CAssetID
  pType :: EResType
  Directory :: string
  Name :: string

text \<open>
  The file system: whether a file can be opened for writing, what the files hold, and
  the files opened for writing so far, oldest first.
\<close>

record FileSystem =
  writable :: "string \<Rightarrow> bool"
  contents :: "string \<Rightarrow> byte list option"
  opened :: "string list"

datatype log_message =
    AlreadyTracked CAssetID string string
  | InvalidResourcePath string string
  | FailedToSaveDatabase string
  | FailedToOpenCacheForLoad string
  | InvalidCacheMagic "byte list"
  | FailedToOpenCacheForSave string
  | CantLocateResource CAssetID
  | UnrecognizedExtension string string
  | CouldntOpenFile string

text \<open>
  \<^verbatim>\<open>CResourceStore\<close>. The two \<^verbatim>\<open>std::map\<close>s are lists in iteration order (ascending keys):
  \<open>mResourceEntries\<close> holds the entries, \<open>mLoadedResources\<close> the keys of the loaded-map, whose
  mapped pointer is the entry of that key. \<open>DatabasePath\<close> and \<open>CacheDataPath\<close> are the
  results of the accessors of those names. \<open>mTransientRoots\<close> is the \<^verbatim>\<open>std::vector\<close> of the
  transient root directories, each given by its \<^verbatim>\<open>Name()\<close>. With the members go what
  \<^verbatim>\<open>Log::Error\<close> has written (\<open>Log\<close>) and the file system the store works on (\<open>files\<close>).
\<close>

record CResourceStore =
  mGame :: EGame
  mRawDir :: string
  mCookedDir :: string
  DatabasePath :: string
  CacheDataPath :: string
  mResourceEntries :: "(CAssetID \<times> CResourceEntry) list"
  mLoadedResources :: "CAssetID list"
  mTransientRoots :: "string list"
  mTransientLoadDir :: string
  mDatabaseDirty :: bool
  mCacheFileDirty :: bool
  Log :: "log_message list"
  files :: FileSystem

datatype fault = Assertion string | DanglingPointer | NullPointer | IteratorPastEnd

text \<open>\<^verbatim>\<open>std::map\<close>: \<^verbatim>\<open>m[k] = v\<close>, \<^verbatim>\<open>erase\<close>, and a change made through a mapped pointer.\<close>

fun map_assign :: "CAssetID \<Rightarrow> 'v \<Rightarrow> (CAssetID \<times> 'v) list \<Rightarrow> (CAssetID \<times> 'v) list" where
  "map_assign k v [] = [(k, v)]"
| "map_assign k v ((k', v') # m) =
     (if k < k' then (k, v) # (k', v') # m
      else if k = k' then (k, v) # m
      else (k', v') # map_assign k v m)"

definition map_erase :: "CAssetID \<Rightarrow> (CAssetID \<times> 'v) list \<Rightarrow> (CAssetID \<times> 'v) list" where
  "map_erase k m = filter (\<lambda>kv. fst kv \<noteq> k) m"

definition update_entry ::
  "CAssetID \<Rightarrow> ('v \<Rightarrow> 'v) \<Rightarrow> (CAssetID \<times> 'v) list \<Rightarrow> (CAssetID \<times> 'v) list" where
  "update_entry k f m = map (\<lambda>kv. if fst kv = k then (fst kv, f (snd kv)) else kv) m"

subsection \<open>What the store calls that is not among the sources\<close>

text \<open>
  Functions of \<^verbatim>\<open>CAssetID\<close>, \<^verbatim>\<open>CResTypeInfo\<close>, \<^verbatim>\<open>FileUtil\<close>, \<^verbatim>\<open>TString\<close>, \<^verbatim>\<open>CVirtualDirectory\<close> and
  \<^verbatim>\<open>CResourceEntry\<close> the store calls, as parameters. \<open>AddToProject\<close> is the change
  \<^verbatim>\<open>CResourceEntry::AddToProject(rkDir, rkName)\<close> makes to its entry; \<open>FormatLoader\<close> is what
  the type-specific loader makes of the file at a path for an entry, \<open>None\<close> when the file
  cannot be read or the loader rejects it; \<open>AssetPath\<close> is where \<^verbatim>\<open>Load()\<close> looks for the
  bytes of an entry; \<open>XMLDocument\<close> is the document a \<^verbatim>\<open>CXMLWriter\<close> named \<^verbatim>\<open>"ResourceDB"\<close> holds
  for a game once the raw and cooked directories and the resource records have been
  serialized to it. \<open>IsEmpty\<close> is \<^verbatim>\<open>CVirtualDirectory::IsEmpty()\<close> of the transient root of a given
  name, for the entries the store holds.
\<close>

record Collaborators =
  IsValid :: "CAssetID \<Rightarrow> bool"
  ToString :: "CAssetID \<Rightarrow> string"
  eInvalidResType :: EResType
  TypeForCookedExtension :: "EGame \<Rightarrow> string \<Rightarrow> EResType"
  IsValidDirectoryPath :: "string \<Rightarrow> bool"
  IsValidName :: "string \<Rightarrow> bool"
  IsAbsolute :: "string \<Rightarrow> bool"
  MakeAbsolute :: "string \<Rightarrow> string"
  GetFileDirectory :: "string \<Rightarrow> string"
  GetFileName :: "string \<Rightarrow> string"
  GetFileExtension :: "string \<Rightarrow> string"
  ToUpper :: "string \<Rightarrow> string"
  IsHexString :: "string \<Rightarrow> bool"
  ToInt64 :: "string \<Rightarrow> CAssetID"
  Hash64 :: "string \<Rightarrow> CAssetID"
  CaseInsensitiveCompare :: "string \<Rightarrow> string \<Rightarrow> bool"
  CookedExtension :: "CResourceEntry \<Rightarrow> string"
  RawExtension :: "CResourceEntry \<Rightarrow> string"
  FindChildResource :: "(CAssetID \<times> CResourceEntry) list \<Rightarrow> string \<Rightarrow> CAssetID option"
  IsEmpty :: "(CAssetID \<times> CResourceEntry) list \<Rightarrow> string \<Rightarrow> bool"
  FileIsValid :: "FileSystem \<Rightarrow> string \<Rightarrow> bool"
  AddToProject :: "string \<Rightarrow> string \<Rightarrow> CResourceEntry \<Rightarrow> CResourceEntry"
  FormatLoader :: "FileSystem \<Rightarrow> string \<Rightarrow> CResourceEntry \<Rightarrow> CResource option"
  AssetPath :: "CResourceEntry \<Rightarrow> string"
  XMLDocument :: "EGame \<Rightarrow> string \<Rightarrow> string \<Rightarrow> SDatabaseResource list \<Rightarrow> byte list"

subsection \<open>Finding and registering entries\<close>

text \<open>
  \<open>GetVirtualDirectory\<close> (CResourceStore.cpp, lines 314 to 341), of which the change to the
  store is kept: for a path that is not empty and a transient directory, the root of that
  name is looked for among the transient roots and, if there is none and \<^verbatim>\<open>AllowCreate\<close> is
  set, a new root is pushed to the back of the vector. The directory returned, and the
  directories below the database root, are part of the tree.
\<close>

definition GetVirtualDirectory :: "string \<Rightarrow> bool \<Rightarrow> bool \<Rightarrow> CResourceStore \<Rightarrow> CResourceStore" where
  "GetVirtualDirectory rkPath Transient AllowCreate S =
     (if rkPath = [] then S
      else if Transient then
        (if rkPath \<in> set (mTransientRoots S) then S
         else if AllowCreate then S\<lparr>mTransientRoots := mTransientRoots S @ [rkPath]\<rparr>
         else S)
      else S)"

definition FindEntry :: "Collaborators \<Rightarrow> CResourceStore \<Rightarrow> CAssetID \<Rightarrow> CResourceEntry option" where
  "FindEntry X S rkID =
     (if \<not> IsValid X rkID then None
      else map_of (mResourceEntries S) rkID)"

definition IsValidResourcePath :: "Collaborators \<Rightarrow> string \<Rightarrow> string \<Rightarrow> bool" where
  "IsValidResourcePath X rkPath rkName =
     (IsValidDirectoryPath X rkPath \<and> IsValidName X rkName
      \<and> \<not> CHR ''/'' \<in> set rkName \<and> \<not> CHR 0x5C \<in> set rkName)"

text \<open>
  The result is the entry pointer returned (\<open>None\<close> for \<^verbatim>\<open>nullptr\<close>) with the store, or the
  failed \<^verbatim>\<open>ASSERT\<close>.
\<close>

definition RegisterResource ::
  "Collaborators \<Rightarrow> CAssetID \<Rightarrow> EResType \<Rightarrow> string \<Rightarrow> string \<Rightarrow> CResourceStore
     \<Rightarrow> fault + (CAssetID option \<times> CResourceStore)" where
  "RegisterResource X rkID ResType rkDir rkName S =
     (case FindEntry X S rkID of
        Some pEntry \<Rightarrow>
          (if IsTransient pEntry then
             (if \<not> mType pEntry = ResType then Inl (Assertion ''pEntry->ResourceType() == Type'')
              else Inr (Some rkID,
                        S\<lparr>mResourceEntries :=
                            update_entry rkID (AddToProject X rkDir rkName) (mResourceEntries S)\<rparr>))
           else Inr (Some rkID, S\<lparr>Log := Log S @ [AlreadyTracked rkID rkDir rkName]\<rparr>))
      | None \<Rightarrow>
          (if IsValidResourcePath X rkDir rkName then
             (let S1 = GetVirtualDirectory rkDir False True S in
              Inr (Some rkID,
                   S1\<lparr>mResourceEntries :=
                       map_assign rkID (new_CResourceEntry rkDir rkName ResType False)
                         (mResourceEntries S1)\<rparr>))
           else Inr (None, S\<lparr>Log := Log S @ [InvalidResourcePath rkDir rkName]\<rparr>)))"


text \<open>\<^verbatim>\<open>RegisterTransientResource(Type, rkID, rkDir, rkFileName)\<close>.\<close>

definition RegisterTransientResource ::
  "Collaborators \<Rightarrow> EResType \<Rightarrow> CAssetID \<Rightarrow> string \<Rightarrow> string \<Rightarrow> CResourceStore
     \<Rightarrow> CAssetID \<times> CResourceStore" where
  "RegisterTransientResource X ResType rkID rkDir rkFileName S =
     (case FindEntry X S rkID of
        Some pEntry \<Rightarrow> (rkID, S)
      | None \<Rightarrow>
          (let S1 = GetVirtualDirectory rkDir True True S in
           (rkID,
            S1\<lparr>mResourceEntries :=
                map_assign rkID (new_CResourceEntry rkDir rkFileName ResType True)
                  (mResourceEntries S1)\<rparr>)))"

subsection \<open>Loading and unloading\<close>

text \<open>
  Modelled from the spec: \<^verbatim>\<open>CResourceEntry::Unload()\<close> (CResourceEntry.cpp is not among the
  sources). It succeeds only if the payload reports no outstanding references, and on
  success releases the payload (section 4.4); releasing a payload drops the references
  it holds, one from the count of each payload in \<open>held\<close> (sections 4.5 and 5). The spec
  also has \<^verbatim>\<open>Unload\<close> take the entry out of the loaded-map; in the sources that is done by
  its callers (\<^verbatim>\<open>mLoadedResources.erase\<close> in \<open>DestroyUnreferencedResources\<close> and in
  \<open>DeleteResourceEntry\<close>), so it is not done here.
\<close>

definition Release :: "CAssetID \<Rightarrow> (CAssetID \<times> CResourceEntry) list \<Rightarrow> (CAssetID \<times> CResourceEntry) list"
  where
  "Release t m =
     update_entry t
       (\<lambda>e. e\<lparr>mpResource := map_option (\<lambda>r. r\<lparr>mRefCount := mRefCount r - 1\<rparr>) (mpResource e)\<rparr>) m"

definition Unload :: "CAssetID \<Rightarrow> CResourceStore \<Rightarrow> bool \<times> CResourceStore" where
  "Unload p S =
     (case map_of (mResourceEntries S) p of
        None \<Rightarrow> (False, S)
      | Some e \<Rightarrow>
         (case mpResource e of
            None \<Rightarrow> (False, S)
          | Some r \<Rightarrow>
             if IsReferenced r then (False, S)
             else (True,
                   S\<lparr>mResourceEntries :=
                       fold Release (held r)
                         (update_entry p (\<lambda>e. e\<lparr>mpResource := None\<rparr>) (mResourceEntries S))\<rparr>)))"

text \<open>\<^verbatim>\<open>TrackLoadedResource\<close>: \<^verbatim>\<open>mLoadedResources[pEntry->ID()] = pEntry\<close> after two assertions.\<close>

definition TrackLoadedResource :: "CAssetID \<Rightarrow> CResourceStore \<Rightarrow> fault + CResourceStore" where
  "TrackLoadedResource p S =
     (case map_of (mResourceEntries S) p of
        None \<Rightarrow> Inl DanglingPointer
      | Some pEntry \<Rightarrow>
         if \<not> IsLoaded pEntry then Inl (Assertion ''pEntry->IsLoaded()'')
         else if \<not> p \<notin> set (mLoadedResources S)
         then Inl (Assertion ''mLoadedResources.find(pEntry->ID()) == mLoadedResources.end()'')
         else Inr (S\<lparr>mLoadedResources := insort p (mLoadedResources S)\<rparr>))"

text \<open>
  Modelled from the spec: \<^verbatim>\<open>CResourceEntry::LoadCooked\<close> and \<^verbatim>\<open>CResourceEntry::Load\<close>
  (CResourceEntry.cpp is not among the sources). Loading invokes the type-specific
  loader, registers the resulting payload, marks the entry loaded and registers it with
  the store's loaded-map; it fails silently, returning none, if the byte source cannot be
  located or the loader rejects the content (section 4.4). \<^verbatim>\<open>Load\<close> returns the existing
  payload of an entry that is loaded.
\<close>

definition LoadCooked ::
  "Collaborators \<Rightarrow> CAssetID \<Rightarrow> string \<Rightarrow> CResourceStore \<Rightarrow> fault + (CResource option \<times> CResourceStore)"
  where
  "LoadCooked X p path S =
     (case map_of (mResourceEntries S) p of
        None \<Rightarrow> Inl DanglingPointer
      | Some e \<Rightarrow>
         (case FormatLoader X (files S) path e of
            None \<Rightarrow> Inr (None, S)
          | Some r \<Rightarrow>
             (case TrackLoadedResource p
                     (S\<lparr>mResourceEntries :=
                          update_entry p (\<lambda>e. e\<lparr>mpResource := Some r\<rparr>) (mResourceEntries S)\<rparr>) of
                Inl f \<Rightarrow> Inl f
              | Inr S' \<Rightarrow> Inr (Some r, S'))))"

definition Load ::
  "Collaborators \<Rightarrow> CAssetID \<Rightarrow> CResourceStore \<Rightarrow> fault + (CResource option \<times> CResourceStore)" where
  "Load X p S =
     (case map_of (mResourceEntries S) p of
        None \<Rightarrow> Inl DanglingPointer
      | Some e \<Rightarrow>
         (case mpResource e of
            Some r \<Rightarrow> Inr (Some r, S)
          | None \<Rightarrow> LoadCooked X p (AssetPath X e) S))"

text \<open>
  \<open>DeleteResourceEntry\<close>. The call of \<^verbatim>\<open>RemoveChildResource\<close> on the entry's directory
  changes the directory tree only: the vector of transient roots is as it was, and whether
  a root is empty is asked of the entries the store holds (\<open>IsEmpty\<close>). The result is the value
  returned, with the store.
\<close>

definition DeleteResourceEntry :: "CAssetID \<Rightarrow> CResourceStore \<Rightarrow> fault + (bool \<times> CResourceStore)" where
  "DeleteResourceEntry pEntry S =
     (case map_of (mResourceEntries S) pEntry of
        None \<Rightarrow> Inl DanglingPointer
      | Some e \<Rightarrow>
         (case
            (if IsLoaded e then
               (if \<not> fst (Unload pEntry S) then Inr (False, S)
                else if \<not> pEntry \<in> set (mLoadedResources (snd (Unload pEntry S)))
                then Inl (Assertion ''It != mLoadedResources.end()'')
                else Inr (True,
                          (snd (Unload pEntry S))
                            \<lparr>mLoadedResources :=
                               removeAll pEntry (mLoadedResources (snd (Unload pEntry S)))\<rparr>))
             else Inr (True, S)) of
            Inl f \<Rightarrow> Inl f
          | Inr (False, S1) \<Rightarrow> Inr (False, S1)
          | Inr (True, S1) \<Rightarrow>
             if \<not> map_of (mResourceEntries S1) pEntry \<noteq> None
             then Inl (Assertion ''It != mResourceEntries.end()'')
             else Inr (True, S1\<lparr>mResourceEntries := map_erase pEntry (mResourceEntries S1)\<rparr>)))"


text \<open>\<^verbatim>\<open>LoadResource(rkPath)\<close>.\<close>

definition LoadResource_Path ::
  "Collaborators \<Rightarrow> string \<Rightarrow> CResourceStore \<Rightarrow> fault + (CResource option \<times> CResourceStore)" where
  "LoadResource_Path X rkPath S =
     (if \<not> IsAbsolute X rkPath then
        (case FindChildResource X (mResourceEntries S) rkPath of
           Some pEntry \<Rightarrow>
             (case map_of (mResourceEntries S) pEntry of
                None \<Rightarrow> Inl DanglingPointer
              | Some e \<Rightarrow>
                 (let Ext = GetFileExtension X rkPath in
                  if Ext \<noteq> [] \<and> length Ext = 4
                     \<and> \<not> CaseInsensitiveCompare X Ext (CookedExtension X e)
                  then Inl (Assertion
                     ''Ext.CaseInsensitiveCompare(pEntry->CookedExtension().ToString())'')
                  else if Ext \<noteq> [] \<and> length Ext \<noteq> 4
                     \<and> \<not> CaseInsensitiveCompare X Ext (RawExtension X e)
                  then Inl (Assertion ''Ext.CaseInsensitiveCompare(pEntry->RawExtension())'')
                  else Load X pEntry S))
         | None \<Rightarrow> Inr (None, S))
      else
        (let Dir = MakeAbsolute X (GetFileDirectory X rkPath);
             Name' = GetFileName X rkPath;
             ID' = (if IsHexString X Name' then ToInt64 X Name' else Hash64 X rkPath)
         in if ID' \<in> set (mLoadedResources S) then
              (case map_of (mResourceEntries S) ID' of
                 None \<Rightarrow> Inl DanglingPointer
               | Some e \<Rightarrow> Inr (mpResource e, S))
            else
              (let Extension = ToUpper X (GetFileExtension X rkPath);
                   ResType = TypeForCookedExtension X (mGame S) Extension
               in if ResType = eInvalidResType X
                  then Inr (None, S\<lparr>Log := Log S @ [UnrecognizedExtension rkPath Extension]\<rparr>)
                  else if \<not> FileIsValid X (files S) rkPath
                  then Inr (None, S\<lparr>Log := Log S @ [CouldntOpenFile rkPath]\<rparr>)
                  else
                    (let OldTransientDir = mTransientLoadDir S;
                         (pEntry, S1) =
                           RegisterTransientResource X ResType ID' Dir Name'
                             (S\<lparr>mTransientLoadDir := Dir\<rparr>)
                     in case LoadCooked X pEntry rkPath S1 of
                          Inl f \<Rightarrow> Inl f
                        | Inr (pRes, S2) \<Rightarrow>
                           (case (if pRes = None then DeleteResourceEntry pEntry S2
                                  else Inr (True, S2)) of
                              Inl f \<Rightarrow> Inl f
                            | Inr (b, S3) \<Rightarrow>
                               Inr (pRes, S3\<lparr>mTransientLoadDir := OldTransientDir\<rparr>))))))"

subsection \<open>\<open>DestroyUnreferencedResources\<close>\<close>

text \<open>
  One run of the inner \<^verbatim>\<open>while\<close> loop. \<open>todo\<close> are the keys from the iterator \<^verbatim>\<open>It\<close> on, \<open>kept\<close>
  those the iterator has passed; \<^verbatim>\<open>mLoadedResources.erase(It)\<close> takes the key at the
  iterator out of the map. \<^verbatim>\<open>NumDeleted\<close> is a \<^verbatim>\<open>u32\<close>.
\<close>

fun DestroyUnreferencedResources_pass ::
  "CAssetID list \<Rightarrow> CAssetID list \<Rightarrow> CResourceStore \<Rightarrow> u32 \<Rightarrow> fault + (CResourceStore \<times> u32)"
  where
  "DestroyUnreferencedResources_pass kept [] S NumDeleted = Inr (S, NumDeleted)"
| "DestroyUnreferencedResources_pass kept (p # todo) S NumDeleted =
     (case map_of (mResourceEntries S) p of
        None \<Rightarrow> Inl DanglingPointer
      | Some pEntry \<Rightarrow>
         (case mpResource pEntry of
            None \<Rightarrow> Inl NullPointer
          | Some r \<Rightarrow>
             if \<not> IsReferenced r \<and> fst (Unload p S) then
               (let S1 = (snd (Unload p S))\<lparr>mLoadedResources := kept @ todo\<rparr> in
                if IsTransient pEntry then
                  (case DeleteResourceEntry p S1 of
                     Inl f \<Rightarrow> Inl f
                   | Inr (b, S2) \<Rightarrow>
                      DestroyUnreferencedResources_pass kept todo S2 (NumDeleted + 1))
                else DestroyUnreferencedResources_pass kept todo S1 (NumDeleted + 1))
             else DestroyUnreferencedResources_pass (kept @ [p]) todo S NumDeleted))"

text \<open>
  The inner loop takes keys out of the loaded-map and adds none, which is why the outer
  \<^verbatim>\<open>do ... while (NumDeleted > 0)\<close> ends.
\<close>

lemma Unload_mLoadedResources [simp]:
  "mLoadedResources (snd (Unload p S)) = mLoadedResources S"
  by (simp add: Unload_def split: option.splits)

lemma DeleteResourceEntry_length:
  "DeleteResourceEntry p S = Inr (b, S') \<Longrightarrow>
   length (mLoadedResources S') \<le> length (mLoadedResources S)"
  by (auto simp: DeleteResourceEntry_def split: option.splits if_splits sum.splits bool.splits
      intro: le_trans [OF length_removeAll_less_eq])

lemma DestroyUnreferencedResources_pass_length:
  "DestroyUnreferencedResources_pass kept todo S n = Inr (S', n') \<Longrightarrow>
   length (mLoadedResources S) \<le> length kept + length todo \<Longrightarrow>
   length (mLoadedResources S') \<le> length kept + length todo
   \<and> (n' \<noteq> n \<longrightarrow> length (mLoadedResources S') < length kept + length todo)"
proof (induction kept todo S n rule: DestroyUnreferencedResources_pass.induct)
  case (1 kept S NumDeleted)
  then show ?case by simp
next
  case (2 kept p todo S NumDeleted)
  from "2.prems"(1) obtain pEntry r where e: "map_of (mResourceEntries S) p = Some pEntry"
      and r: "mpResource pEntry = Some r"
    by (auto split: option.splits)
  show ?case
  proof (cases "\<not> IsReferenced r \<and> fst (Unload p S)")
    case False
    with "2.IH"(3) [OF e r] "2.prems" e r show ?thesis
      by auto
  next
    case True
    define S1 where "S1 = (snd (Unload p S))\<lparr>mLoadedResources := kept @ todo\<rparr>"
    show ?thesis
    proof (cases "IsTransient pEntry")
      case False
      have "DestroyUnreferencedResources_pass kept todo S1 (NumDeleted + 1) = Inr (S', n')"
        using "2.prems"(1) e r True False by (simp add: S1_def Let_def)
      from "2.IH"(2) [OF e r True S1_def False this] show ?thesis
        by (simp add: S1_def)
    next
      case tr: True
      from "2.prems"(1) e r True tr obtain b S2 where
        d: "DeleteResourceEntry p S1 = Inr (b, S2)"
        and rest: "DestroyUnreferencedResources_pass kept todo S2 (NumDeleted + 1) = Inr (S', n')"
        by (auto simp: S1_def Let_def split: sum.splits)
      have "length (mLoadedResources S2) \<le> length kept + length todo"
        using DeleteResourceEntry_length [OF d] by (simp add: S1_def)
      from "2.IH"(1) [OF e r True S1_def tr d refl rest this] show ?thesis
        by simp
    qed
  qed
qed

text \<open>The \<^verbatim>\<open>do ... while (NumDeleted > 0)\<close> loop.\<close>

function DestroyUnreferencedResources_loop :: "CResourceStore \<Rightarrow> fault + CResourceStore" where
  "DestroyUnreferencedResources_loop S =
     (case DestroyUnreferencedResources_pass [] (mLoadedResources S) S 0 of
        Inl f \<Rightarrow> Inl f
      | Inr (S', NumDeleted) \<Rightarrow>
         if NumDeleted > 0 then DestroyUnreferencedResources_loop S' else Inr S')"
  by pat_completeness auto
termination
proof (relation "measure (\<lambda>S. length (mLoadedResources S))")
  show "wf (measure (\<lambda>S. length (mLoadedResources S)))" by simp
next
  fix S :: CResourceStore and x2 S' and NumDeleted :: u32
  assume "DestroyUnreferencedResources_pass [] (mLoadedResources S) S 0 = Inr x2"
    and "(S', NumDeleted) = x2" and "0 < NumDeleted"
  then have "DestroyUnreferencedResources_pass [] (mLoadedResources S) S 0 = Inr (S', NumDeleted)"
    and "NumDeleted \<noteq> 0"
    by auto
  from DestroyUnreferencedResources_pass_length [OF this(1)] this(2)
  show "(S', S) \<in> measure (\<lambda>S. length (mLoadedResources S))"
    by simp
qed

declare DestroyUnreferencedResources_loop.simps [simp del]

text \<open>
  The \<^verbatim>\<open>for\<close> loop over \<open>mTransientRoots\<close> that destroys the empty roots. \<open>todo\<close> are the roots
  from the iterator \<^verbatim>\<open>DirIt\<close> on, \<open>passed\<close> those before it; \<open>m\<close> are the entries of the store.
  For an empty root, \<^verbatim>\<open>DirIt = mTransientRoots.erase(DirIt)\<close> takes the root out of the vector
  and leaves the iterator at the root that followed it, or at \<^verbatim>\<open>end()\<close> if none did; the
  \<^verbatim>\<open>DirIt++\<close> of the loop header comes next in either case. It steps over the root that
  followed, which stays in the vector unexamined, and it increments the iterator \<^verbatim>\<open>end()\<close>
  when the erased root was the last one, which a \<^verbatim>\<open>std::vector\<close> does not define: the fault
  \<open>IteratorPastEnd\<close>.
\<close>

fun DestroyEmptyRoots ::
  "Collaborators \<Rightarrow> (CAssetID \<times> CResourceEntry) list \<Rightarrow> string list \<Rightarrow> string list
     \<Rightarrow> fault + string list" where
  "DestroyEmptyRoots X m passed [] = Inr passed"
| "DestroyEmptyRoots X m passed [pRoot] =
     (if IsEmpty X m pRoot then Inl IteratorPastEnd else Inr (passed @ [pRoot]))"
| "DestroyEmptyRoots X m passed (pRoot # pNext # todo) =
     (if IsEmpty X m pRoot then DestroyEmptyRoots X m (passed @ [pNext]) todo
      else DestroyEmptyRoots X m (passed @ [pRoot]) (pNext # todo))"

text \<open>\<open>DestroyUnreferencedResources\<close>: the loop, then the sweep of the transient roots.\<close>

definition DestroyUnreferencedResources :: "Collaborators \<Rightarrow> CResourceStore \<Rightarrow> fault + CResourceStore"
  where
  "DestroyUnreferencedResources X S =
     (case DestroyUnreferencedResources_loop S of
        Inl f \<Rightarrow> Inl f
      | Inr S1 \<Rightarrow>
         (case DestroyEmptyRoots X (mResourceEntries S1) [] (mTransientRoots S1) of
            Inl f \<Rightarrow> Inl f
          | Inr roots \<Rightarrow> Inr (S1\<lparr>mTransientRoots := roots\<rparr>)))"

subsection \<open>The resource database and the cache file\<close>

text \<open>\<^verbatim>\<open>CSerialVersion\<close>: archive version, file version and game.\<close>

record CSerialVersion =
  ArchiveVer :: u16
  FileVer :: u16
  Game :: EGame

text \<open>
  Modelled from the spec: the streams \<^verbatim>\<open>CFileInStream\<close> and \<^verbatim>\<open>CFileOutStream\<close>, which are
  not among the sources. The cache file is a sequence of bytes read at a position;
  \<^verbatim>\<open>ReadLong\<close> and \<^verbatim>\<open>WriteLong\<close> move a \<^verbatim>\<open>u32\<close> as four bytes, most significant first (the
  streams are opened with \<^verbatim>\<open>IOUtil::eBigEndian\<close>; section 6 gives the layout). A byte past
  the end of the file reads as \<open>0\<close>.
\<close>

definition read_byte :: "byte list \<Rightarrow> nat \<Rightarrow> byte" where
  "read_byte data i = (if i < length data then data ! i else 0)"

definition ReadLong :: "byte list \<Rightarrow> nat \<Rightarrow> u32 \<times> nat" where
  "ReadLong data pos =
     (push_bit 24 (ucast (read_byte data pos)) OR push_bit 16 (ucast (read_byte data (pos + 1)))
        OR push_bit 8 (ucast (read_byte data (pos + 2))) OR ucast (read_byte data (pos + 3)),
      pos + 4)"

definition WriteLong :: "u32 \<Rightarrow> byte list" where
  "WriteLong v = [ucast (drop_bit 24 v), ucast (drop_bit 16 v), ucast (drop_bit 8 v), ucast v]"

definition CACH :: "byte list" where
  "CACH = [0x43, 0x41, 0x43, 0x48]"

text \<open>
  What the cache file code calls that is not among the sources: reading and writing a
  \<^verbatim>\<open>CSerialVersion\<close> and a \<^verbatim>\<open>CAssetID\<close> (whose width depends on the game), and on the binary
  reader \<^verbatim>\<open>ParamBegin\<close>, \<^verbatim>\<open>CResourceEntry::SerializeCacheData\<close> and \<^verbatim>\<open>ParamEnd\<close>, each a function
  of the file and the position that returns the new position. \<open>WriteEntryCache\<close> is what
  the binary writer puts out for these three calls on an entry.
\<close>

record CacheFormat =
  ReadVersion :: "byte list \<Rightarrow> nat \<Rightarrow> CSerialVersion \<times> nat"
  ReadAssetID :: "EGame \<Rightarrow> byte list \<Rightarrow> nat \<Rightarrow> CAssetID \<times> nat"
  Reader_ParamBegin :: "CSerialVersion \<Rightarrow> string \<Rightarrow> byte list \<Rightarrow> nat \<Rightarrow> bool \<times> nat"
  SerializeCacheData ::
    "CSerialVersion \<Rightarrow> byte list \<Rightarrow> nat \<Rightarrow> CResourceEntry \<Rightarrow> CResourceEntry \<times> nat"
  Reader_ParamEnd :: "CSerialVersion \<Rightarrow> byte list \<Rightarrow> nat \<Rightarrow> nat"
  WriteVersion :: "CSerialVersion \<Rightarrow> byte list"
  WriteAssetID :: "CAssetID \<Rightarrow> byte list"
  WriteEntryCache :: "CSerialVersion \<Rightarrow> CResourceEntry \<Rightarrow> byte list"

text \<open>
  The body of the \<^verbatim>\<open>for\<close> loop of \<open>LoadCacheFile\<close>, run \<open>n\<close> more times from the position
  \<open>pos\<close>. \<^verbatim>\<open>EntryCacheEnd\<close> is a \<^verbatim>\<open>u32\<close>: the sum wraps.
\<close>

fun LoadCacheFile_records ::
  "Collaborators \<Rightarrow> CacheFormat \<Rightarrow> CSerialVersion \<Rightarrow> byte list \<Rightarrow> nat \<Rightarrow> nat \<Rightarrow> CResourceStore
     \<Rightarrow> CResourceStore \<times> nat" where
  "LoadCacheFile_records X F Version data 0 pos S = (S, pos)"
| "LoadCacheFile_records X F Version data (Suc n) pos S =
     (let (ID', p1) = ReadAssetID F (Game Version) data pos;
          (EntryCacheSize, p2) = ReadLong data p1;
          EntryCacheEnd = (word_of_nat p2 + EntryCacheSize :: u32);
          (S1, p3) =
            (case FindEntry X S ID' of
               Some pEntry \<Rightarrow>
                 if \<not> IsTransient pEntry then
                   (let (entered, q) = Reader_ParamBegin F Version ''EntryCache'' data p2 in
                    if entered then
                      (let (e', q') = SerializeCacheData F Version data q pEntry
                       in (S\<lparr>mResourceEntries :=
                               update_entry ID' (\<lambda>e. e') (mResourceEntries S)\<rparr>,
                           Reader_ParamEnd F Version data q'))
                    else (S, q))
                 else (S, p2)
             | None \<Rightarrow> (S, p2))
      in LoadCacheFile_records X F Version data n (unat EntryCacheEnd) S1)"

definition LoadCacheFile ::
  "Collaborators \<Rightarrow> CacheFormat \<Rightarrow> CResourceStore \<Rightarrow> bool \<times> CResourceStore" where
  "LoadCacheFile X F S =
     (case contents (files S) (CacheDataPath S) of
        None \<Rightarrow> (False, S\<lparr>Log := Log S @ [FailedToOpenCacheForLoad (CacheDataPath S)]\<rparr>)
      | Some data \<Rightarrow>
         (let Magic = [read_byte data 0, read_byte data 1, read_byte data 2, read_byte data 3] in
          if Magic \<noteq> CACH then (False, S\<lparr>Log := Log S @ [InvalidCacheMagic Magic]\<rparr>)
          else
            (let (Version, p1) = ReadVersion F data 4;
                 (NumResources, p2) = ReadLong data p1
             in (True, fst (LoadCacheFile_records X F Version data (unat NumResources) p2 S)))))"

text \<open>
  The \<^verbatim>\<open>Resources\<close> vector \<open>SerializeResourceDatabase\<close> fills for an archive that is not a
  reader: one record for every entry that is not transient.
\<close>

definition Resources :: "CResourceStore \<Rightarrow> SDatabaseResource list" where
  "Resources S =
     map (\<lambda>kv. \<lparr>ID = fst kv, pType = mType (snd kv), Directory = mDirectory (snd kv),
                Name = mName (snd kv)\<rparr>)
       (filter (\<lambda>kv. \<not> IsTransient (snd kv)) (mResourceEntries S))"

text \<open>\<^verbatim>\<open>Writer.Save()\<close> succeeds when the file at the database path can be written.\<close>

definition SaveResourceDatabase :: "Collaborators \<Rightarrow> CResourceStore \<Rightarrow> bool \<times> CResourceStore" where
  "SaveResourceDatabase X S =
     (let Path = DatabasePath S;
          Writer = XMLDocument X (mGame S) (mRawDir S) (mCookedDir S) (Resources S);
          SaveSuccess = writable (files S) Path;
          S1 = S\<lparr>files := (files S)
                  \<lparr>opened := opened (files S) @ [Path],
                   contents := (if SaveSuccess then (contents (files S))(Path \<mapsto> Writer)
                                else contents (files S))\<rparr>\<rparr>
      in if SaveSuccess then (SaveSuccess, S1\<lparr>mDatabaseDirty := False\<rparr>)
         else (SaveSuccess, S1\<lparr>Log := Log S1 @ [FailedToSaveDatabase Path]\<rparr>))"

text \<open>
  \<open>SaveCacheFile\<close>. The size of a record is written once its payload is, as
  \<^verbatim>\<open>EntryCacheEnd - SizeOffset - 4\<close>, and the count of records last, both \<^verbatim>\<open>u32\<close>.
\<close>

definition SaveCacheFile :: "Collaborators \<Rightarrow> CacheFormat \<Rightarrow> CResourceStore \<Rightarrow> bool \<times> CResourceStore"
  where
  "SaveCacheFile X F S =
     (let CachePath = CacheDataPath S;
          S1 = S\<lparr>files := (files S)\<lparr>opened := opened (files S) @ [CachePath]\<rparr>\<rparr>
      in if \<not> writable (files S) CachePath
         then (False, S1\<lparr>Log := Log S1 @ [FailedToOpenCacheForSave CachePath]\<rparr>)
         else
           (let Version = \<lparr>ArchiveVer = 0, FileVer = 0, Game = mGame S\<rparr>;
                saved = filter (\<lambda>kv. \<not> IsTransient (snd kv)) (mResourceEntries S);
                ResCount = (word_of_nat (length saved) :: u32);
                records =
                  concat (map (\<lambda>kv. let payload = WriteEntryCache F Version (snd kv)
                                     in WriteAssetID F (fst kv)
                                        @ WriteLong (word_of_nat (length payload)) @ payload)
                            saved);
                data = CACH @ WriteVersion F Version @ WriteLong ResCount @ records
            in (True,
                S1\<lparr>files := (files S1)\<lparr>contents := (contents (files S1))(CachePath \<mapsto> data)\<rparr>,
                   mCacheFileDirty := False\<rparr>)))"

definition ConditionalSaveStore :: "Collaborators \<Rightarrow> CacheFormat \<Rightarrow> CResourceStore \<Rightarrow> CResourceStore"
  where
  "ConditionalSaveStore X F S =
     (let S1 = (if mDatabaseDirty S then snd (SaveResourceDatabase X S) else S)
      in if mCacheFileDirty S1 then snd (SaveCacheFile X F S1) else S1)"

subsection \<open>The loaded-map and what unloading does to a store\<close>

text \<open>
  \<^verbatim>\<open>pEntry->Resource()\<close> for the entry pointer \<open>p\<close>: the payload of the entry under the key
  \<open>p\<close>, \<open>None\<close> when there is no such entry or it has no payload.
\<close>

definition Resource_of :: "CResourceStore \<Rightarrow> CAssetID \<Rightarrow> CResource option" where
  "Resource_of S p = (case map_of (mResourceEntries S) p of None \<Rightarrow> None | Some e \<Rightarrow> mpResource e)"

definition transient_in :: "CResourceStore \<Rightarrow> CAssetID \<Rightarrow> bool" where
  "transient_in S p = (case map_of (mResourceEntries S) p of None \<Rightarrow> False | Some e \<Rightarrow> IsTransient e)"

text \<open>
  The invariant of the loaded-map (spec, section 3): its keys are distinct, and every
  entry in it is in the entries map and is loaded.
\<close>

definition loaded_map_ok :: "CResourceStore \<Rightarrow> bool" where
  "loaded_map_ok S =
     (distinct (mLoadedResources S) \<and> (\<forall>p \<in> set (mLoadedResources S). Resource_of S p \<noteq> None))"

text \<open>
  \<open>unloads_to S S'\<close>: the store \<open>S'\<close> differs from \<open>S\<close> by entries having been unloaded. No key
  has come into the loaded-map or the entries map; the entries kept have their flags; a
  payload still there holds the references it held, and its count has not grown; an entry
  that has left the loaded-map has no payload, is gone from the entries map if it was
  transient, and every payload it held a reference to has lost at least one from its
  count.
\<close>

definition unloads_to :: "CResourceStore \<Rightarrow> CResourceStore \<Rightarrow> bool" where
  "unloads_to S S' =
     (set (mLoadedResources S') \<subseteq> set (mLoadedResources S)
      \<and> (\<forall>k. map_of (mResourceEntries S) k = None \<longrightarrow> map_of (mResourceEntries S') k = None)
      \<and> (\<forall>k e'. map_of (mResourceEntries S') k = Some e' \<longrightarrow>
             (\<exists>e. map_of (mResourceEntries S) k = Some e \<and> mFlags e' = mFlags e))
      \<and> (\<forall>k r'. Resource_of S' k = Some r' \<longrightarrow>
             (\<exists>r. Resource_of S k = Some r \<and> held r' = held r \<and> mRefCount r' \<le> mRefCount r))
      \<and> (\<forall>p \<in> set (mLoadedResources S) - set (mLoadedResources S').
             Resource_of S' p = None
             \<and> (transient_in S p \<longrightarrow> map_of (mResourceEntries S') p = None)
             \<and> (\<forall>r t r'. Resource_of S p = Some r \<and> t \<in> set (held r) \<and> Resource_of S' t = Some r'
                   \<longrightarrow> (\<exists>rt. Resource_of S t = Some rt \<and> mRefCount r' \<le> mRefCount rt - 1))))"

subsection \<open>The layout of the cache file, in the spec's words\<close>

text \<open>
  The spec (sections 4.5 and 6) lays the cache file out as the header followed by
  \<open>count\<close> records \<^verbatim>\<open>[id][u32 length][payload]\<close>, a record ending \<open>length\<close> bytes after its
  payload starts. \<open>cache_records\<close> is the table of the \<open>n\<close> records that start at \<open>pos\<close>:
  for each its identifier, where its payload starts and where it ends. The table is a
  function of the file alone.
\<close>

fun cache_records ::
  "CacheFormat \<Rightarrow> EGame \<Rightarrow> byte list \<Rightarrow> nat \<Rightarrow> nat \<Rightarrow> (CAssetID \<times> nat \<times> nat) list" where
  "cache_records F g data 0 pos = []"
| "cache_records F g data (Suc n) pos =
     (let (k, p1) = ReadAssetID F g data pos;
          (len, p2) = ReadLong data p1
      in (k, p2, p2 + unat len) # cache_records F g data n (p2 + unat len))"

text \<open>
  What loading makes of one record of the table (section 4.5): the payload is
  deserialized into the registered entry of that identifier if there is one and it is
  not transient; a record of any other identifier is ignored.
\<close>

definition load_record ::
  "Collaborators \<Rightarrow> CacheFormat \<Rightarrow> CSerialVersion \<Rightarrow> byte list \<Rightarrow> CAssetID \<times> nat \<times> nat
     \<Rightarrow> CResourceStore \<Rightarrow> CResourceStore" where
  "load_record X F Version data r S =
     (case FindEntry X S (fst r) of
        None \<Rightarrow> S
      | Some pEntry \<Rightarrow>
         if IsTransient pEntry then S
         else if \<not> fst (Reader_ParamBegin F Version ''EntryCache'' data (fst (snd r))) then S
         else S\<lparr>mResourceEntries :=
                 update_entry (fst r)
                   (\<lambda>e. fst (SerializeCacheData F Version data
                                (snd (Reader_ParamBegin F Version ''EntryCache'' data (fst (snd r))))
                                pEntry))
                   (mResourceEntries S)\<rparr>)"

section \<open>Example inputs\<close>

text \<open>
  A small format backend and class on which the definitions above are run. The world is
  a document of named values, the value of the entry last entered, and the \<^verbatim>\<open>Type()\<close> of
  the objects allocated so far, an object's address being its index.
\<close>

record example_world =
  doc :: "(string \<times> u32) list"
  cur :: u32
  objects :: "u32 list"

text \<open>The reader enters the next entry of the document if it has the name asked for.\<close>

definition example_reader :: "(example_world, u32) Backend" where
  "example_reader =
     \<lparr>ParamBegin = (\<lambda>name flags w.
        (case doc w of
           [] \<Rightarrow> (False, w)
         | nv # rest \<Rightarrow> if fst nv = name then (True, w\<lparr>doc := rest, cur := snd nv\<rparr>) else (False, w))),
      ParamEnd = (\<lambda>w. w),
      PreSerializePointer = (\<lambda>p flags w. ((True, p), w)),
      SerializePrimitive = (\<lambda>v flags w. (cur w, w)),
      SerializePrimitive_at = (\<lambda>a flags w. w)\<rparr>"

text \<open>The same reader with a \<^verbatim>\<open>PreSerializePointer\<close> that returns false for every pointer.\<close>

definition example_refusing_reader :: "(example_world, u32) Backend" where
  "example_refusing_reader = example_reader\<lparr>PreSerializePointer := (\<lambda>p flags w. ((False, p), w))\<rparr>"

text \<open>The writer appends an entry for every scope entered and fills in its value.\<close>

definition example_writer :: "(example_world, u32) Backend" where
  "example_writer =
     \<lparr>ParamBegin = (\<lambda>name flags w. (True, w\<lparr>doc := doc w @ [(name, 0)]\<rparr>)),
      ParamEnd = (\<lambda>w. w),
      PreSerializePointer = (\<lambda>p flags w. ((True, p), w)),
      SerializePrimitive = (\<lambda>v flags w. (v, w\<lparr>doc := butlast (doc w) @ [(fst (last (doc w)), v)]\<rparr>)),
      SerializePrimitive_at = (\<lambda>a flags w. w)\<rparr>"

definition example_class :: "example_world Class" where
  "example_class =
     \<lparr>New = (\<lambda>w. (length (objects w), w\<lparr>objects := objects w @ [0]\<rparr>)),
      ArchiveConstructor = (\<lambda>t w. (Some (length (objects w)), w\<lparr>objects := objects w @ [t]\<rparr>)),
      Type = (\<lambda>a w. objects w ! a),
      Serialize = (\<lambda>a w. w)\<rparr>"

definition example_archive ::
  "u16 \<Rightarrow> u32 \<Rightarrow> (string \<times> u32) list \<Rightarrow> u32 list \<Rightarrow> example_world IArchive" where
  "example_archive version flags d objs =
     \<lparr>mArchiveVersion = version, mFileVersion = 0, mArchiveFlags = flags, mParmStack = [],
      world = \<lparr>doc = d, cur = 0, objects = objs\<rparr>, calls = []\<rparr>"

definition example_u32 :: ValType where
  "example_u32 = \<lparr>hash_code = 32, sizeof = 4, SUPPORTS_DEFAULT_VALUES = True, is_polymorphic = False\<rparr>"

definition example_Env :: Env where
  "example_Env = \<lparr>DEBUG = True, u32_type = example_u32, Type_addr = 1000, Type_init = 0xCCCCCCCC\<rparr>"

text \<open>A polymorphic class, the type of a pointer to it, and a pointer field.\<close>

definition example_poly :: ValType where
  "example_poly = \<lparr>hash_code = 77, sizeof = 24, SUPPORTS_DEFAULT_VALUES = False, is_polymorphic = True\<rparr>"

definition example_ptr :: ValType where
  "example_ptr = \<lparr>hash_code = 78, sizeof = 8, SUPPORTS_DEFAULT_VALUES = False, is_polymorphic = False\<rparr>"

definition example_field :: "nat option TSerialParameter" where
  "example_field = \<lparr>pkName = ''Obj'', rValue = Some 0, pValue = 64, HintFlags = 0, pDefaultValue = None\<rparr>"

text \<open>The same field holding \<^verbatim>\<open>nullptr\<close>.\<close>

definition example_null_field :: "nat option TSerialParameter" where
  "example_null_field = \<lparr>pkName = ''Obj'', rValue = None, pValue = 64, HintFlags = 0, pDefaultValue = None\<rparr>"

text \<open>
  Collaborators, a store and an entry for the examples. The file \<^verbatim>\<open>ResourceDB.rdb\<close> of the
  example store cannot be written; the format loader rejects an empty or missing file; a
  transient root is empty when no transient entry of the store is in the directory of its
  name. The example store has no transient root.
\<close>

definition example_X :: Collaborators where
  "example_X =
     \<lparr>IsValid = (\<lambda>k. k \<noteq> 0xFFFFFFFF),
      ToString = (\<lambda>k. ''id''),
      eInvalidResType = 0,
      TypeForCookedExtension = (\<lambda>g ext. if ext = ''CMDL'' then 5 else 0),
      IsValidDirectoryPath = (\<lambda>p. take 1 p \<noteq> ''/''),
      IsValidName = (\<lambda>n. n \<noteq> []),
      IsAbsolute = (\<lambda>p. take 1 p = ''/''),
      MakeAbsolute = (\<lambda>p. p),
      GetFileDirectory = (\<lambda>p. ''/tmp/''),
      GetFileName = (\<lambda>p. ''7''),
      GetFileExtension = (\<lambda>p. ''CMDL''),
      ToUpper = (\<lambda>p. p),
      IsHexString = (\<lambda>n. True),
      ToInt64 = (\<lambda>n. 7),
      Hash64 = (\<lambda>p. 9),
      CaseInsensitiveCompare = (\<lambda>a b. a = b),
      CookedExtension = (\<lambda>e. ''CMDL''),
      RawExtension = (\<lambda>e. ''xml''),
      FindChildResource = (\<lambda>m p. None),
      IsEmpty = (\<lambda>m root. list_all (\<lambda>kv. \<not> (IsTransient (snd kv) \<and> mDirectory (snd kv) = root)) m),
      FileIsValid = (\<lambda>fs p. contents fs p \<noteq> None),
      AddToProject = (\<lambda>d n e. e\<lparr>mDirectory := d, mName := n, mFlags := mFlags e AND NOT eREF_Transient\<rparr>),
      FormatLoader = (\<lambda>fs p e. case contents fs p of
                        None \<Rightarrow> None
                      | Some bs \<Rightarrow> if bs = [] then None else Some \<lparr>mRefCount = 0, held = []\<rparr>),
      AssetPath = (\<lambda>e. mDirectory e @ mName e),
      XMLDocument = (\<lambda>g r c rs. map (\<lambda>x. word_of_nat (ID x)) rs)\<rparr>"

definition example_store ::
  "(CAssetID \<times> CResourceEntry) list \<Rightarrow> CAssetID list \<Rightarrow> (string \<Rightarrow> byte list option) \<Rightarrow> CResourceStore"
  where
  "example_store m l fs =
     \<lparr>mGame = 1, mRawDir = ''Raw/'', mCookedDir = ''Cooked/'', DatabasePath = ''ResourceDB.rdb'',
      CacheDataPath = ''ResourceCacheData.rcd'', mResourceEntries = m, mLoadedResources = l,
      mTransientRoots = [], mTransientLoadDir = ''/tmp/'', mDatabaseDirty = False, mCacheFileDirty = False, Log = [],
      files = \<lparr>writable = (\<lambda>p. p \<noteq> ''ResourceDB.rdb''), contents = fs, opened = []\<rparr>\<rparr>"

definition example_entry :: "CResource option \<Rightarrow> EResType \<Rightarrow> u32 \<Rightarrow> CResourceEntry" where
  "example_entry r t f = \<lparr>mpResource = r, mType = t, mDirectory = ''chars/'', mName = ''hero'', mFlags = f\<rparr>"

text \<open>
  A cache format with identifiers and versions of one byte, whose \<open>SerializeCacheData\<close>
  reads the entry's flags from the first byte of the payload and leaves the position
  seven bytes further on, whatever the length of the payload.
\<close>

definition example_F :: CacheFormat where
  "example_F =
     \<lparr>ReadVersion = (\<lambda>data pos.
        (\<lparr>ArchiveVer = 0, FileVer = 0, Game = unat (read_byte data pos)\<rparr>, pos + 1)),
      ReadAssetID = (\<lambda>g data pos. (unat (read_byte data pos), pos + 1)),
      Reader_ParamBegin = (\<lambda>V name data pos. (True, pos)),
      SerializeCacheData = (\<lambda>V data pos e. (e\<lparr>mFlags := ucast (read_byte data pos)\<rparr>, pos + 7)),
      Reader_ParamEnd = (\<lambda>V data pos. pos),
      WriteVersion = (\<lambda>V. [word_of_nat (Game V)]),
      WriteAssetID = (\<lambda>k. [word_of_nat k]),
      WriteEntryCache = (\<lambda>V e. [ucast (mFlags e)])\<rparr>"

text \<open>
  A cache file of three records, for the identifiers 1, 9 and 2, with payloads of one,
  three and one byte.
\<close>

definition example_cache :: "byte list" where
  "example_cache =
     [0x43, 0x41, 0x43, 0x48, 1, 0, 0, 0, 3,
      1, 0, 0, 0, 1, 4,
      9, 0, 0, 0, 3, 1, 2, 3,
      2, 0, 0, 0, 1, 1]"

text \<open>
  A store with two registered entries and a transient one, whose cache file is the
  example file; \<open>f1\<close> and \<open>f2\<close> are the flags of the registered entries.
\<close>

definition example_cached_store :: "u32 \<Rightarrow> u32 \<Rightarrow> CResourceStore" where
  "example_cached_store f1 f2 =
     example_store
       [(1, example_entry None 5 f1), (2, example_entry None 5 f2),
        (3, example_entry None 5 eREF_Transient)] []
       (\<lambda>p. if p = ''ResourceCacheData.rcd'' then Some example_cache else None)"

text \<open>
  A store with a chain of two loaded entries: the payload of the transient entry 2 has no
  reference and holds the only reference to the payload of the entry 1. The transient
  root of the entry 2 is the only transient root of the store.
\<close>

definition example_chain :: CResourceStore where
  "example_chain =
     (example_store
        [(1, example_entry (Some \<lparr>mRefCount = 1, held = []\<rparr>) 5 0),
         (2, example_entry (Some \<lparr>mRefCount = 0, held = [1]\<rparr>) 5 eREF_Transient)]
        [1, 2] (\<lambda>p. None))
     \<lparr>mTransientRoots := [''chars/'']\<rparr>"

section \<open>Properties of the archive engine\<close>

lemmas example_simps = example_poly_def example_ptr_def example_field_def example_archive_def
  example_reader_def example_writer_def example_class_def example_Env_def example_u32_def
  AF_Reader_def AF_Writer_def AF_NoSkipping_def SH_Attribute_def SH_Optional_def SH_NeverSave_def SH_AlwaysSave_def
  eArVer_Initial_def eArVer_Refactor_def IsReader_def IsWriter_def ArchiveVersion_def
  ShouldSerializeParameter_def ParameterMatchesDefault_def

lemmas engine_simps = PushParameter_def PopParameter_def do_ParamBegin_def do_ParamEnd_def
  do_PreSerializePointer_def do_SerializePrimitive_def do_SerializePrimitive_at_def do_Serialize_def
  do_New_def do_ArchiveConstructor_def serialize_legacy_Type_def operator_shl_Primitive_def
  SerialParameter_def InitParameterToDefault_def InstantiateAbstractObject_def

lemma ShouldSerializeParameter_stack [simp]:
  "ShouldSerializeParameter T P (A\<lparr>mParmStack := s\<rparr>) = ShouldSerializeParameter T P A"
  by (simp add: ShouldSerializeParameter_def IsWriter_def)

lemma IsReader_stack [simp]: "IsReader (A\<lparr>mParmStack := s\<rparr>) = IsReader A"
  by (simp add: IsReader_def)

lemma IsReader_world_calls [simp]:
  "IsReader (A\<lparr>world := w, calls := c\<rparr>) = IsReader A"
  by (simp add: IsReader_def)

lemma IsWriter_stack [simp]: "IsWriter (A\<lparr>mParmStack := s\<rparr>) = IsWriter A"
  by (simp add: IsWriter_def)

lemma IsWriter_world_calls [simp]:
  "IsWriter (A\<lparr>world := w, calls := c\<rparr>) = IsWriter A"
  by (simp add: IsWriter_def)

lemma PushParameter_ok:
  "\<not> dbg \<or> mParmStack A = [] \<or> EntryHintFlags (last (mParmStack A)) AND SH_Attribute = 0 \<Longrightarrow>
   PushParameter dbg T P A = Inr (A\<lparr>mParmStack := mParmStack A @
                  [\<lparr>TypeID = hash_code T, TypeSize = sizeof T,
                    pDataPointer = pValue P, EntryHintFlags = HintFlags P\<rparr>]\<rparr>)"
  by (auto simp: PushParameter_def)

lemma PopParameter_pushed:
  "mParmStack A = s @ [\<lparr>TypeID = hash_code T, TypeSize = sizeof T,
                    pDataPointer = pValue P, EntryHintFlags = f\<rparr>] \<Longrightarrow>
   PopParameter dbg T P A = Inr (A\<lparr>mParmStack := s\<rparr>)"
  by (simp add: PopParameter_def)

lemma operator_shl_Primitive_skipped:
  assumes "\<not> dbg \<or> mParmStack A = [] \<or> EntryHintFlags (last (mParmStack A)) AND SH_Attribute = 0"
    and "\<not> ShouldSerializeParameter T P A"
  shows "operator_shl_Primitive dbg B T P A =
     Inr (if IsReader A then rValue (snd (InitParameterToDefault T P)) else rValue P, A)"
  using assms(2)
  by (simp add: operator_shl_Primitive_def PushParameter_ok [OF assms(1)] PopParameter_pushed)

lemma operator_shl_Primitive_declined:
  assumes "\<not> dbg \<or> mParmStack A = [] \<or> EntryHintFlags (last (mParmStack A)) AND SH_Attribute = 0"
    and "ShouldSerializeParameter T P A"
    and "ParamBegin B (pkName P) (HintFlags P) (world A) = (False, w)"
  shows "operator_shl_Primitive dbg B T P A =
     Inr (if IsReader A then rValue (snd (InitParameterToDefault T P)) else rValue P,
          A\<lparr>world := w, calls := calls A @ [ParamBegin_call (pkName P) (HintFlags P)]\<rparr>)"
  using assms(2,3)
  by (simp add: operator_shl_Primitive_def PushParameter_ok [OF assms(1)] PopParameter_pushed
      do_ParamBegin_def)

lemma operator_shl_Primitive_entered:
  assumes "\<not> dbg \<or> mParmStack A = [] \<or> EntryHintFlags (last (mParmStack A)) AND SH_Attribute = 0"
    and "ShouldSerializeParameter T P A"
    and "ParamBegin B (pkName P) (HintFlags P) (world A) = (True, w1)"
    and "SerializePrimitive B (rValue P) (HintFlags P) w1 = (v, w2)"
  shows "operator_shl_Primitive dbg B T P A =
     Inr (v, A\<lparr>world := ParamEnd B w2,
               calls := calls A @ [ParamBegin_call (pkName P) (HintFlags P),
                                   SerializePrimitive_call (HintFlags P), ParamEnd_call]\<rparr>)"
  using assms(2,3,4)
  by (simp add: operator_shl_Primitive_def PushParameter_ok [OF assms(1)] PopParameter_pushed
      do_ParamBegin_def do_SerializePrimitive_def do_ParamEnd_def)

lemma FindParentObject_from_take:
  "n \<le> length stack \<Longrightarrow>
   FindParentObject_from stack tid (int n - 1) =
     map_option pDataPointer (find (\<lambda>e. TypeID e = tid) (rev (take n stack)))"
proof (induction n)
  case 0
  then show ?case by (simp add: FindParentObject_from.simps)
next
  case (Suc n)
  then have n: "n < length stack" by simp
  have step: "FindParentObject_from stack tid (int n) =
      (if TypeID (stack ! n) = tid then Some (pDataPointer (stack ! n))
       else FindParentObject_from stack tid (int n - 1))"
    by (subst FindParentObject_from.simps) (simp add: Let_def)
  from n Suc.IH show ?case
    by (simp add: step take_Suc_conv_app_nth)
qed

lemma FindParentObject_from_negative:
  "ParmIdx < 0 \<Longrightarrow> FindParentObject_from stack tid ParmIdx = None"
  by (simp add: FindParentObject_from.simps)

lemma sint_word_of_int_32:
  assumes "- (2 ^ 31) \<le> x" and "x < 2 ^ 31"
  shows "sint (word_of_int x :: 32 word) = x"
proof -
  have "(x + 2 ^ 31) mod 2 ^ 32 = x + 2 ^ 31"
    using assms by (intro mod_pos_pos_trivial) auto
  then show ?thesis
    by (simp add: int_word_sint)
qed

lemma start_index:
  assumes "n < 2 ^ 31"
  shows "sint ((word_of_nat n :: 32 word) - 2) = int n - 2"
proof -
  have w: "(word_of_nat n :: 32 word) - 2 = word_of_int (int n - 2)"
    by simp
  have "sint (word_of_int (int n - 2) :: 32 word) = int n - 2"
    using assms by (intro sint_word_of_int_32) auto
  then show ?thesis
    unfolding w .
qed

text \<open>
  C5. On every parameter stack (of fewer than \<open>2 ^ 31\<close> frames, so that the \<^verbatim>\<open>int\<close> index
  holds the start position), \<open>FindParentObject\<close> returns the data pointer of the first
  frame of the requested type met when walking down from the second-to-last frame, and
  \<^verbatim>\<open>nullptr\<close> when there is none. The last frame (the parameter being serialized) is not
  looked at: the result is a function of \<open>butlast\<close> of the stack alone.
\<close>

theorem FindParentObject_nearest_below_top:
  assumes "length (mParmStack A) < 2 ^ 31"
  shows "FindParentObject A tid =
     map_option pDataPointer
       (find (\<lambda>e. TypeID e = tid) (rev (butlast (mParmStack A))))"
proof (cases "mParmStack A = []")
  case True
  then show ?thesis
    by (simp add: FindParentObject_def FindParentObject_from_negative)
next
  case False
  define n where "n = length (mParmStack A) - 1"
  have len: "length (mParmStack A) = Suc n"
    using False by (simp add: n_def)
  have idx: "sint ((word_of_nat (length (mParmStack A)) :: 32 word) - 2) = int n - 1"
    using start_index [OF assms] len by simp
  have "FindParentObject_from (mParmStack A) tid (int n - 1) =
      map_option pDataPointer
        (find (\<lambda>e. TypeID e = tid) (rev (take n (mParmStack A))))"
    by (rule FindParentObject_from_take) (simp add: len)
  then show ?thesis
    unfolding FindParentObject_def idx by (simp add: butlast_conv_take n_def)
qed

theorem FindParentObject_nearest_below_top_witness:
  "FindParentObject
     \<lparr>mArchiveVersion = 2, mFileVersion = 0, mArchiveFlags = AF_Reader,
      mParmStack =
        [\<lparr>TypeID = 7, TypeSize = 8, pDataPointer = 100, EntryHintFlags = 0\<rparr>,
         \<lparr>TypeID = 5, TypeSize = 4, pDataPointer = 200, EntryHintFlags = 0\<rparr>,
         \<lparr>TypeID = 7, TypeSize = 8, pDataPointer = 300, EntryHintFlags = 0\<rparr>,
         \<lparr>TypeID = 9, TypeSize = 4, pDataPointer = 400, EntryHintFlags = 0\<rparr>,
         \<lparr>TypeID = 5, TypeSize = 4, pDataPointer = 500, EntryHintFlags = 0\<rparr>],
      world = (), calls = []\<rparr> 5 = Some 200"
  by (subst FindParentObject_nearest_below_top) simp_all

text \<open>
  C1. Take a parameter whose hints hold \<open>SH_Optional\<close> and not \<open>SH_AlwaysSave\<close>, of a type
  that supports default values, with a default value supplied; let the push of its stack
  frame pass the debug build's check. (1) A writer without \<open>AF_NoSkipping\<close> on which the
  live value equals the default does not serialize the parameter
  (\<open>ShouldSerializeParameter\<close> is false), and \<^verbatim>\<open>operator<<\<close> returns with the archive as it
  was: no call was made through the interface and the world is unchanged. (2) A reader
  that does not enter the parameter's scope (the parameter is not to be serialized, or
  \<^verbatim>\<open>ParamBegin\<close> declines) leaves the default value in the field. (3) With \<open>AF_NoSkipping\<close>
  set, \<open>ShouldSerializeParameter\<close> holds for every parameter of every type.
\<close>

theorem default_omission:
  assumes push: "\<not> dbg \<or> mParmStack A = [] \<or> EntryHintFlags (last (mParmStack A)) AND SH_Attribute = 0"
    and hints: "HintFlags P AND SH_Optional \<noteq> 0" "HintFlags P AND SH_AlwaysSave = 0"
    and supports: "SUPPORTS_DEFAULT_VALUES T"
    and dflt: "pDefaultValue P = Some d"
  shows "(mArchiveFlags A AND AF_NoSkipping = 0 \<and> IsWriter A \<and> rValue P = d
          \<longrightarrow> \<not> ShouldSerializeParameter T P A \<and> operator_shl_Primitive dbg B T P A = Inr (rValue P, A))
       \<and> (IsReader A
            \<and> \<not> (ShouldSerializeParameter T P A \<and> fst (ParamBegin B (pkName P) (HintFlags P) (world A)))
          \<longrightarrow> (\<exists>A'. operator_shl_Primitive dbg B T P A = Inr (d, A')))
       \<and> (\<forall>T' P' :: 'c TSerialParameter. mArchiveFlags A AND AF_NoSkipping \<noteq> 0 \<longrightarrow> ShouldSerializeParameter T' P' A)"
proof (intro conjI impI allI)
  assume h: "mArchiveFlags A AND AF_NoSkipping = 0 \<and> IsWriter A \<and> rValue P = d"
  with hints supports dflt show no: "\<not> ShouldSerializeParameter T P A"
    by (simp add: ShouldSerializeParameter_def ParameterMatchesDefault_def)
  show "operator_shl_Primitive dbg B T P A = Inr (rValue P, A)"
    using h supports dflt
    by (simp add: operator_shl_Primitive_skipped [OF push no] InitParameterToDefault_def)
next
  assume h: "IsReader A
            \<and> \<not> (ShouldSerializeParameter T P A \<and> fst (ParamBegin B (pkName P) (HintFlags P) (world A)))"
  show "\<exists>A'. operator_shl_Primitive dbg B T P A = Inr (d, A')"
  proof (cases "ShouldSerializeParameter T P A")
    case False
    with h supports dflt show ?thesis
      by (simp add: operator_shl_Primitive_skipped [OF push False] InitParameterToDefault_def)
  next
    case True
    with h obtain w where "ParamBegin B (pkName P) (HintFlags P) (world A) = (False, w)"
      by (cases "ParamBegin B (pkName P) (HintFlags P) (world A)") auto
    from operator_shl_Primitive_declined [OF push True this] h supports dflt show ?thesis
      by (simp add: InitParameterToDefault_def)
  qed
next
  fix T' and P' :: "'c TSerialParameter"
  assume "mArchiveFlags A AND AF_NoSkipping \<noteq> 0"
  then show "ShouldSerializeParameter T' P' A"
    by (simp add: ShouldSerializeParameter_def)
qed

theorem default_omission_witness:
  "operator_shl_Primitive True example_writer example_u32
       \<lparr>pkName = ''FileVer'', rValue = 0 :: u32, pValue = 16,
          HintFlags = SH_Attribute OR SH_Optional, pDefaultValue = Some 0\<rparr>
       (example_archive 2 AF_Writer [] [])
     = Inr (0, example_archive 2 AF_Writer [] [])
   \<and> (\<exists>A'. operator_shl_Primitive True example_reader example_u32
       \<lparr>pkName = ''FileVer'', rValue = 7 :: u32, pValue = 16,
          HintFlags = SH_Attribute OR SH_Optional, pDefaultValue = Some 0\<rparr>
       (example_archive 0 AF_Reader [(''Game'', 3)] []) = Inr (0, A'))
   \<and> ShouldSerializeParameter example_u32
        \<lparr>pkName = ''FileVer'', rValue = 0 :: u32, pValue = 16,
          HintFlags = SH_NeverSave, pDefaultValue = Some 0\<rparr>
       (example_archive 2 (AF_Writer OR AF_NoSkipping) [] [])"
  using default_omission [of True "example_archive 2 AF_Writer [] []"
      "\<lparr>pkName = ''FileVer'', rValue = 0 :: u32, pValue = 16,
          HintFlags = SH_Attribute OR SH_Optional, pDefaultValue = Some 0\<rparr>" example_u32 0 example_writer]
    default_omission [of True "example_archive 0 AF_Reader [(''Game'', 3)] []"
      "\<lparr>pkName = ''FileVer'', rValue = 7 :: u32, pValue = 16,
          HintFlags = SH_Attribute OR SH_Optional, pDefaultValue = Some 0\<rparr>" example_u32 0 example_reader]
    default_omission [of True "example_archive 2 (AF_Writer OR AF_NoSkipping) [] []"
      "\<lparr>pkName = ''FileVer'', rValue = 0 :: u32, pValue = 16,
          HintFlags = SH_Attribute OR SH_Optional, pDefaultValue = Some 0\<rparr>" example_u32 0 example_writer]
  by (simp add: example_archive_def example_u32_def example_reader_def IsWriter_def IsReader_def
      SH_Attribute_def SH_Optional_def SH_AlwaysSave_def AF_Writer_def AF_Reader_def AF_NoSkipping_def
      ShouldSerializeParameter_def)

lemma ShouldSerializeParameter_Type:
  "ShouldSerializeParameter (u32_type E)
     (SerialParameter (u32_type E) ''Type'' v a SH_Attribute 0 :: u32 TSerialParameter) A"
  by (simp add: ShouldSerializeParameter_def SerialParameter_def SH_Attribute_def
      SH_NeverSave_def SH_Optional_def)














lemma operator_shl_Primitive_Type:
  assumes "\<not> dbg \<or> mParmStack A = [] \<or> EntryHintFlags (last (mParmStack A)) AND SH_Attribute = 0"
    and "ShouldSerializeParameter T P A"
  shows "\<exists>t w. operator_shl_Primitive dbg B T P A =
     Inr (t, A\<lparr>world := w,
              calls := calls A @ ParamBegin_call (pkName P) (HintFlags P) #
                (if fst (ParamBegin B (pkName P) (HintFlags P) (world A))
                 then [SerializePrimitive_call (HintFlags P), ParamEnd_call] else [])\<rparr>)"
proof -
  obtain r w1 where pb: "ParamBegin B (pkName P) (HintFlags P) (world A) = (r, w1)"
    by (cases "ParamBegin B (pkName P) (HintFlags P) (world A)")
  show ?thesis
  proof (cases r)
    case True
    obtain v w2 where sp: "SerializePrimitive B (rValue P) (HintFlags P) w1 = (v, w2)"
      by (cases "SerializePrimitive B (rValue P) (HintFlags P) w1")
    from pb True have "ParamBegin B (pkName P) (HintFlags P) (world A) = (True, w1)" by simp
    from operator_shl_Primitive_entered [OF assms this sp] pb True show ?thesis
      by auto
  next
    case False
    with pb have "ParamBegin B (pkName P) (HintFlags P) (world A) = (False, w1)" by simp
    from operator_shl_Primitive_declined [OF assms this] pb False show ?thesis
      by auto
  qed
qed

text \<open>
  C10, as amended. Let a reader that is no writer enter the scope of a pointer field of an
  abstract class (the stack pushes pass the debug build's checks, \<^verbatim>\<open>ParamBegin\<close> accepts) and
  let \<^verbatim>\<open>PreSerializePointer\<close>, which has the pointer by reference, return true, leaving the
  pointer \<open>p\<close>. The engine then serializes the
  attribute "Type" with \<^verbatim>\<open>operator<<\<close> for a primitive, the variable holding \<^verbatim>\<open>Type()\<close> of
  the existing object (\<open>0\<close> if there is none); let \<open>t\<close> be the value read. If \<open>p\<close> points to
  an object, no call of the factory is made: when \<open>t\<close> equals the object's \<^verbatim>\<open>Type()\<close> the
  calls that follow are \<^verbatim>\<open>Serialize\<close> on that same object and \<^verbatim>\<open>ParamEnd\<close>, and the pointer is
  returned unchanged; when it differs the run ends in the failed assertion
  \<^verbatim>\<open>Type == TypeCopy\<close>. Only if \<open>p\<close> is \<^verbatim>\<open>nullptr\<close> is \<^verbatim>\<open>ArchiveConstructor\<close> called, with \<open>t\<close>, and the
  object it returns is the one serialized.
\<close>

theorem abstract_pointer_existing_object_kept:
  assumes push: "\<not> DEBUG E \<or> mParmStack A = [] \<or> EntryHintFlags (last (mParmStack A)) AND SH_Attribute = 0"
    and nested: "\<not> DEBUG E \<or> HintFlags P AND SH_Attribute = 0"
    and reader: "IsReader A" and not_writer: "\<not> IsWriter A"
    and entered: "ParamBegin B (pkName P) (HintFlags P) (world A) = (True, w1)"
    and gate: "PreSerializePointer B (rValue P) (HintFlags P) w1 = ((True, p), w2)"
  shows "\<exists>t A4.
      operator_shl_Primitive (DEBUG E) B (u32_type E)
        (SerialParameter (u32_type E) ''Type'' (case p of Some a \<Rightarrow> Type C a w2 | None \<Rightarrow> 0)
           (Type_addr E) SH_Attribute 0)
        (A\<lparr>mParmStack := mParmStack A @
               [\<lparr>TypeID = hash_code PT, TypeSize = sizeof PT,
                 pDataPointer = pValue P, EntryHintFlags = HintFlags P\<rparr>],
            world := w2,
            calls := calls A @ [ParamBegin_call (pkName P) (HintFlags P),
                                PreSerializePointer_call (rValue P) (HintFlags P)]\<rparr>) = Inr (t, A4)
      \<and> calls A4 = calls A @ [ParamBegin_call (pkName P) (HintFlags P),
                                PreSerializePointer_call (rValue P) (HintFlags P),
                                ParamBegin_call ''Type'' SH_Attribute]
                      @ (if fst (ParamBegin B ''Type'' SH_Attribute w2)
                         then [SerializePrimitive_call SH_Attribute, ParamEnd_call] else [])
      \<and> operator_shl_Abstract_ptr E B C PT P A =
          (case p of
             Some a \<Rightarrow>
               if t = Type C a w2 then
                 Inr (Some a,
                      A4\<lparr>mParmStack := mParmStack A,
                         world := ParamEnd B (Serialize C a (world A4)),
                         calls := calls A4 @ [Serialize_call a, ParamEnd_call]\<rparr>)
               else Inl (AssertionFailed ''Type == TypeCopy'')
           | None \<Rightarrow>
               (case ArchiveConstructor C t (world A4) of
                  (Some b, w5) \<Rightarrow>
                    Inr (Some b,
                         A4\<lparr>mParmStack := mParmStack A,
                            world := ParamEnd B (Serialize C b w5),
                            calls := calls A4 @ [ArchiveConstructor_call t, Serialize_call b,
                                                 ParamEnd_call]\<rparr>)
                | (None, w5) \<Rightarrow>
                    Inr (None,
                         A4\<lparr>mParmStack := mParmStack A,
                            world := ParamEnd B w5,
                            calls := calls A4 @ [ArchiveConstructor_call t, ParamEnd_call]\<rparr>)))"
proof -
  let ?A3 = "A\<lparr>mParmStack := mParmStack A @
               [\<lparr>TypeID = hash_code PT, TypeSize = sizeof PT,
                 pDataPointer = pValue P, EntryHintFlags = HintFlags P\<rparr>],
            world := w2,
            calls := calls A @ [ParamBegin_call (pkName P) (HintFlags P),
                                PreSerializePointer_call (rValue P) (HintFlags P)]\<rparr>"
  let ?T = "SerialParameter (u32_type E) ''Type'' (case p of Some a \<Rightarrow> Type C a w2 | None \<Rightarrow> 0)
           (Type_addr E) SH_Attribute 0 :: u32 TSerialParameter"
  have n: "pkName ?T = ''Type''" "HintFlags ?T = SH_Attribute"
    by (simp_all add: SerialParameter_def)
  have p3: "\<not> DEBUG E \<or> mParmStack ?A3 = [] \<or> EntryHintFlags (last (mParmStack ?A3)) AND SH_Attribute = 0"
    using nested by simp
  have sh: "ShouldSerializeParameter (u32_type E) ?T ?A3"
    by (rule ShouldSerializeParameter_Type)
  from operator_shl_Primitive_Type [OF p3 sh, of B]
  obtain t w4 where ty: "operator_shl_Primitive (DEBUG E) B (u32_type E) ?T ?A3 =
      Inr (t, ?A3\<lparr>world := w4,
              calls := calls ?A3 @ ParamBegin_call ''Type'' SH_Attribute #
                (if fst (ParamBegin B ''Type'' SH_Attribute w2)
                 then [SerializePrimitive_call SH_Attribute, ParamEnd_call] else [])\<rparr>)"
    by (auto simp: n cong: if_cong)
  have should: "ShouldSerializeParameter (PT\<lparr>SUPPORTS_DEFAULT_VALUES := False\<rparr>) P A"
    using not_writer by (simp add: ShouldSerializeParameter_def)
  obtain q w5 where ac: "ArchiveConstructor C t w4 = (q, w5)"
    by (cases "ArchiveConstructor C t w4")
  have "operator_shl_Abstract_ptr E B C PT P A =
          (case p of
             Some a \<Rightarrow>
               if t = Type C a w2 then
                 Inr (Some a,
                      A\<lparr>world := ParamEnd B (Serialize C a w4),
                         calls := calls ?A3 @ ParamBegin_call ''Type'' SH_Attribute #
                (if fst (ParamBegin B ''Type'' SH_Attribute w2)
                 then [SerializePrimitive_call SH_Attribute, ParamEnd_call] else []) @ [Serialize_call a, ParamEnd_call]\<rparr>)
               else Inl (AssertionFailed ''Type == TypeCopy'')
           | None \<Rightarrow>
               (case q of
                  Some b \<Rightarrow>
                    Inr (Some b,
                         A\<lparr>world := ParamEnd B (Serialize C b w5),
                            calls := calls ?A3 @ ParamBegin_call ''Type'' SH_Attribute #
                (if fst (ParamBegin B ''Type'' SH_Attribute w2)
                 then [SerializePrimitive_call SH_Attribute, ParamEnd_call] else []) @ [ArchiveConstructor_call t, Serialize_call b,
                                                 ParamEnd_call]\<rparr>)
                | None \<Rightarrow>
                    Inr (None,
                         A\<lparr>world := ParamEnd B w5,
                            calls := calls ?A3 @ ParamBegin_call ''Type'' SH_Attribute #
                (if fst (ParamBegin B ''Type'' SH_Attribute w2)
                 then [SerializePrimitive_call SH_Attribute, ParamEnd_call] else []) @ [ArchiveConstructor_call t, ParamEnd_call]\<rparr>)))"
    using should reader not_writer entered gate ty ac
    by (cases p; cases q)
       (simp_all add: operator_shl_Abstract_ptr_def PushParameter_ok [OF push] do_ParamBegin_def
         do_PreSerializePointer_def do_Serialize_def do_ParamEnd_def PopParameter_pushed
         InstantiateAbstractObject_def do_ArchiveConstructor_def Let_def)
  with ty ac show ?thesis
    by (cases p; cases q) simp_all
qed


theorem abstract_pointer_existing_object_kept_witness:
  "operator_shl_Abstract_ptr example_Env example_reader example_class example_ptr example_field
     (example_archive 2 AF_Reader [(''Obj'', 0), (''Type'', 5)] [5])
   = Inr (Some 0,
          \<lparr>mArchiveVersion = 2, mFileVersion = 0, mArchiveFlags = AF_Reader, mParmStack = [],
           world = \<lparr>doc = [], cur = 5, objects = [5]\<rparr>,
           calls = [ParamBegin_call ''Obj'' 0, PreSerializePointer_call (Some 0) 0,
                    ParamBegin_call ''Type'' SH_Attribute, SerializePrimitive_call SH_Attribute,
                    ParamEnd_call, Serialize_call 0, ParamEnd_call]\<rparr>)
   \<and> operator_shl_Abstract_ptr example_Env example_reader example_class example_ptr example_field
     (example_archive 2 AF_Reader [(''Obj'', 0), (''Type'', 6)] [5])
   = Inl (AssertionFailed ''Type == TypeCopy'')
   \<and> operator_shl_Abstract_ptr example_Env example_reader example_class example_ptr
     example_null_field (example_archive 2 AF_Reader [(''Obj'', 0), (''Type'', 6)] [5])
   = Inr (Some 1,
          \<lparr>mArchiveVersion = 2, mFileVersion = 0, mArchiveFlags = AF_Reader, mParmStack = [],
           world = \<lparr>doc = [], cur = 6, objects = [5, 6]\<rparr>,
           calls = [ParamBegin_call ''Obj'' 0, PreSerializePointer_call None 0,
                    ParamBegin_call ''Type'' SH_Attribute, SerializePrimitive_call SH_Attribute,
                    ParamEnd_call, ArchiveConstructor_call 6, Serialize_call 1, ParamEnd_call]\<rparr>)"
  using abstract_pointer_existing_object_kept [where E = example_Env and B = example_reader
      and C = example_class and PT = example_ptr and P = example_field
      and A = "example_archive 2 AF_Reader [(''Obj'', 0), (''Type'', 5)] [5]"
      and ?w1.0 = "\<lparr>doc = [(''Type'', 5)], cur = 0, objects = [5]\<rparr>"
      and ?w2.0 = "\<lparr>doc = [(''Type'', 5)], cur = 0, objects = [5]\<rparr>" and p = "Some 0"]
    abstract_pointer_existing_object_kept [where E = example_Env and B = example_reader
      and C = example_class and PT = example_ptr and P = example_field
      and A = "example_archive 2 AF_Reader [(''Obj'', 0), (''Type'', 6)] [5]"
      and ?w1.0 = "\<lparr>doc = [(''Type'', 6)], cur = 0, objects = [5]\<rparr>"
      and ?w2.0 = "\<lparr>doc = [(''Type'', 6)], cur = 0, objects = [5]\<rparr>" and p = "Some 0"]
    abstract_pointer_existing_object_kept [where E = example_Env and B = example_reader
      and C = example_class and PT = example_ptr and P = example_null_field
      and A = "example_archive 2 AF_Reader [(''Obj'', 0), (''Type'', 6)] [5]"
      and ?w1.0 = "\<lparr>doc = [(''Type'', 6)], cur = 0, objects = [5]\<rparr>"
      and ?w2.0 = "\<lparr>doc = [(''Type'', 6)], cur = 0, objects = [5]\<rparr>" and p = None]
  by (simp add: example_simps example_null_field_def engine_simps)

text \<open>
  The claim as stated fails when \<^verbatim>\<open>PreSerializePointer\<close> returns false: the pointer of the
  field is not null when the scope is entered, and the reader serializes neither the
  "Type" attribute nor the object, sets the pointer to \<^verbatim>\<open>nullptr\<close> and closes the scope.
\<close>

theorem abstract_pointer_refused_is_set_to_null:
  "operator_shl_Abstract_ptr example_Env example_refusing_reader example_class example_ptr
     example_field (example_archive 2 AF_Reader [(''Obj'', 0), (''Type'', 5)] [5])
   = Inr (None,
          \<lparr>mArchiveVersion = 2, mFileVersion = 0, mArchiveFlags = AF_Reader, mParmStack = [],
           world = \<lparr>doc = [(''Type'', 5)], cur = 0, objects = [5]\<rparr>,
           calls = [ParamBegin_call ''Obj'' 0, PreSerializePointer_call (Some 0) 0,
                    ParamEnd_call]\<rparr>)"
  by (simp add: operator_shl_Abstract_ptr_def example_simps example_refusing_reader_def
      engine_simps)

text \<open>
  C7. The overloads for a pointer with the Primitive and the Global strategy end in a
  failed assertion when a writer meets \<^verbatim>\<open>nullptr\<close>; the overload for an abstract class
  dereferences the pointer.
\<close>

lemma Primitive_ptr_null_pointer_asserted:
  "mArchiveFlags A AND AF_Writer \<noteq> 0 \<Longrightarrow> rValue P = None \<Longrightarrow>
   operator_shl_Primitive_ptr E B C T PT P A =
     Inl (AssertionFailed ''!(mArchiveFlags & AF_Writer) || rParam.rValue != nullptr'')"
  by (simp add: operator_shl_Primitive_ptr_def)

lemma Global_ptr_null_pointer_asserted:
  "IsWriter A \<Longrightarrow> rValue P = None \<Longrightarrow>
   operator_shl_Global_ptr E B C T PT P A =
     Inl (AssertionFailed ''!IsWriter() || rParam.rValue != nullptr'')"
  by (simp add: operator_shl_Global_ptr_def)

lemma Abstract_ptr_null_pointer_dereferenced:
  "operator_shl_Abstract_ptr example_Env example_writer example_class example_ptr
     example_null_field (example_archive 2 AF_Writer [] []) = Inl NullDereference"
  by (simp add: operator_shl_Abstract_ptr_def example_simps example_null_field_def engine_simps)

text \<open>
  C7, on the code: the overload for a pointer to a non-abstract class with a \<^verbatim>\<open>Serialize\<close>
  method has no such assertion. A writer given \<^verbatim>\<open>nullptr\<close> there enters the field's scope,
  calls \<^verbatim>\<open>PreSerializePointer\<close>, serializes nothing, closes the scope and returns normally.
\<close>

theorem Member_ptr_writes_null_pointer_without_assertion:
  "operator_shl_Member_ptr example_Env example_writer example_class example_poly example_ptr
     example_null_field (example_archive 2 AF_Writer [] [])
   = Inr (None,
          \<lparr>mArchiveVersion = 2, mFileVersion = 0, mArchiveFlags = AF_Writer, mParmStack = [],
           world = \<lparr>doc = [(''Obj'', 0)], cur = 0, objects = []\<rparr>,
           calls = [ParamBegin_call ''Obj'' 0, PreSerializePointer_call None 0, ParamEnd_call]\<rparr>)"
  by (simp add: operator_shl_Member_ptr_def example_simps example_null_field_def engine_simps)

section \<open>Properties of the resource store\<close>

lemmas store_example_simps = example_X_def example_store_def example_entry_def
  eREF_Transient_def eREF_NeedsRecook_def IsTransient_def IsLoaded_def IsReferenced_def FindEntry_def

lemma map_of_update_entry:
  "map_of (update_entry k f m) k' =
     (if k' = k then map_option f (map_of m k) else map_of m k')"
  by (induction m) (auto simp: update_entry_def)

lemma length_update_entry [simp]: "length (update_entry k f m) = length m"
  by (simp add: update_entry_def)

lemma map_of_map_assign:
  "map_of (map_assign k v m) k' = (if k' = k then Some v else map_of m k')"
  by (induction m) auto

lemma map_of_map_erase:
  "map_of (map_erase k m) k' = (if k' = k then None else map_of m k')"
  by (induction m) (auto simp: map_erase_def)

lemma length_map_assign:
  "map_of m k = None \<Longrightarrow> length (map_assign k v m) = Suc (length m)"
  by (induction m) (auto split: if_splits)

lemma GetVirtualDirectory_not_transient [simp]:
  "GetVirtualDirectory rkPath False AllowCreate S = S"
  by (simp add: GetVirtualDirectory_def)



text \<open>
  C9. \<open>SaveResourceDatabase\<close> returns whether the database file could be written, clears
  the database dirty flag exactly when it returns true and leaves it as it was when it
  returns false, and never touches the cache-file flag; \<open>SaveCacheFile\<close> does the same for
  the cache-file flag with the cache file, and never touches the database flag. Each
  opens its own file once. \<open>ConditionalSaveStore\<close> runs \<open>SaveResourceDatabase\<close> if and only
  if the database flag was set and \<open>SaveCacheFile\<close> if and only if the cache-file flag was
  set when it was called: the files it opens are exactly those of the flags set.
\<close>

theorem dirty_flags_cleared_by_successful_save:
  "fst (SaveResourceDatabase X S) = writable (files S) (DatabasePath S)
   \<and> mDatabaseDirty (snd (SaveResourceDatabase X S))
       = (if fst (SaveResourceDatabase X S) then False else mDatabaseDirty S)
   \<and> mCacheFileDirty (snd (SaveResourceDatabase X S)) = mCacheFileDirty S
   \<and> fst (SaveCacheFile X F S) = writable (files S) (CacheDataPath S)
   \<and> mCacheFileDirty (snd (SaveCacheFile X F S))
       = (if fst (SaveCacheFile X F S) then False else mCacheFileDirty S)
   \<and> mDatabaseDirty (snd (SaveCacheFile X F S)) = mDatabaseDirty S
   \<and> opened (files (snd (SaveResourceDatabase X S))) = opened (files S) @ [DatabasePath S]
   \<and> opened (files (snd (SaveCacheFile X F S))) = opened (files S) @ [CacheDataPath S]
   \<and> ConditionalSaveStore X F S =
       (if mDatabaseDirty S \<and> mCacheFileDirty S
          then snd (SaveCacheFile X F (snd (SaveResourceDatabase X S)))
        else if mDatabaseDirty S then snd (SaveResourceDatabase X S)
        else if mCacheFileDirty S then snd (SaveCacheFile X F S)
        else S)
   \<and> opened (files (ConditionalSaveStore X F S))
       = opened (files S) @ (if mDatabaseDirty S then [DatabasePath S] else [])
           @ (if mCacheFileDirty S then [CacheDataPath S] else [])"
proof -
  have db: "fst (SaveResourceDatabase X S) = writable (files S) (DatabasePath S)"
    "mDatabaseDirty (snd (SaveResourceDatabase X S))
       = (if fst (SaveResourceDatabase X S) then False else mDatabaseDirty S)"
    "mCacheFileDirty (snd (SaveResourceDatabase X S)) = mCacheFileDirty S"
    "opened (files (snd (SaveResourceDatabase X S))) = opened (files S) @ [DatabasePath S]"
    "CacheDataPath (snd (SaveResourceDatabase X S)) = CacheDataPath S"
    for S
    by (simp_all add: SaveResourceDatabase_def Let_def)
  have ca: "fst (SaveCacheFile X F S) = writable (files S) (CacheDataPath S)"
    "mCacheFileDirty (snd (SaveCacheFile X F S))
       = (if fst (SaveCacheFile X F S) then False else mCacheFileDirty S)"
    "mDatabaseDirty (snd (SaveCacheFile X F S)) = mDatabaseDirty S"
    "opened (files (snd (SaveCacheFile X F S))) = opened (files S) @ [CacheDataPath S]"
    for S
    by (simp_all add: SaveCacheFile_def Let_def)
  have co: "ConditionalSaveStore X F S =
       (if mDatabaseDirty S \<and> mCacheFileDirty S
          then snd (SaveCacheFile X F (snd (SaveResourceDatabase X S)))
        else if mDatabaseDirty S then snd (SaveResourceDatabase X S)
        else if mCacheFileDirty S then snd (SaveCacheFile X F S)
        else S)"
    by (simp add: ConditionalSaveStore_def Let_def db(3))
  have op: "opened (files (ConditionalSaveStore X F S))
       = opened (files S) @ (if mDatabaseDirty S then [DatabasePath S] else [])
           @ (if mCacheFileDirty S then [CacheDataPath S] else [])"
    unfolding co by (simp add: db ca)
  from db ca co op show ?thesis
    by blast
qed

text \<open>
  C4, as amended. Let the entries map hold an entry under the identifier and let the
  identifier be one that \<^verbatim>\<open>CAssetID::IsValid\<close> accepts, the test \<open>FindEntry\<close> makes before it
  looks into the map. If the entry is not transient, \<open>RegisterResource\<close> returns it and
  changes the store only by logging the error: the entries, and so their count, are as
  before. If it is transient and of the type given, its entry is replaced in place by what
  \<open>AddToProject\<close> makes of it: the count and all other entries are as before; if its type
  differs, the call ends in the failed assertion. If the entries map holds no entry under
  the identifier, an entry that is not transient is created under it, the count growing
  by one, exactly when the directory path is a valid directory path and the name is a
  valid name holding neither \<open>/\<close> nor a backslash; otherwise the store is changed only by
  logging the error and \<^verbatim>\<open>nullptr\<close> is returned.
\<close>

theorem RegisterResource_cases:
  "(case map_of (mResourceEntries S) rkID of
      Some pEntry \<Rightarrow>
        IsValid X rkID \<longrightarrow>
        (if \<not> IsTransient pEntry then
           RegisterResource X rkID ResType rkDir rkName S
             = Inr (Some rkID, S\<lparr>Log := Log S @ [AlreadyTracked rkID rkDir rkName]\<rparr>)
         else if mType pEntry = ResType then
           (\<exists>S'. RegisterResource X rkID ResType rkDir rkName S = Inr (Some rkID, S')
              \<and> length (mResourceEntries S') = length (mResourceEntries S)
              \<and> map_of (mResourceEntries S') rkID = Some (AddToProject X rkDir rkName pEntry)
              \<and> (\<forall>k. k \<noteq> rkID \<longrightarrow> map_of (mResourceEntries S') k = map_of (mResourceEntries S) k)
              \<and> Log S' = Log S)
         else RegisterResource X rkID ResType rkDir rkName S
                = Inl (Assertion ''pEntry->ResourceType() == Type''))
    | None \<Rightarrow>
        if IsValidDirectoryPath X rkDir \<and> IsValidName X rkName
           \<and> CHR ''/'' \<notin> set rkName \<and> CHR 0x5C \<notin> set rkName then
          (\<exists>S'. RegisterResource X rkID ResType rkDir rkName S = Inr (Some rkID, S')
             \<and> length (mResourceEntries S') = Suc (length (mResourceEntries S))
             \<and> map_of (mResourceEntries S') rkID = Some (new_CResourceEntry rkDir rkName ResType False)
             \<and> (\<forall>k. k \<noteq> rkID \<longrightarrow> map_of (mResourceEntries S') k = map_of (mResourceEntries S) k)
             \<and> Log S' = Log S)
        else RegisterResource X rkID ResType rkDir rkName S
               = Inr (None, S\<lparr>Log := Log S @ [InvalidResourcePath rkDir rkName]\<rparr>))"
proof (cases "map_of (mResourceEntries S) rkID")
  case None
  then have "FindEntry X S rkID = None"
    by (simp add: FindEntry_def)
  with None show ?thesis
    by (auto simp: RegisterResource_def IsValidResourcePath_def map_of_map_assign length_map_assign)
next
  case (Some pEntry)
  show ?thesis
  proof (cases "IsValid X rkID")
    case False
    with Some show ?thesis by simp
  next
    case True
    with Some have "FindEntry X S rkID = Some pEntry"
      by (simp add: FindEntry_def)
    with Some True show ?thesis
      by (auto simp: RegisterResource_def map_of_update_entry)
  qed
qed

theorem RegisterResource_cases_witness:
  "RegisterResource example_X 1 5 ''props/'' ''crate''
      (example_store [(1, example_entry None 5 0), (2, example_entry None 6 eREF_Transient)] [] (\<lambda>p. None))
    = Inr (Some 1,
        (example_store [(1, example_entry None 5 0), (2, example_entry None 6 eREF_Transient)] [] (\<lambda>p. None))
          \<lparr>Log := [AlreadyTracked 1 ''props/'' ''crate'']\<rparr>)
   \<and> RegisterResource example_X 2 6 ''props/'' ''crate''
      (example_store [(1, example_entry None 5 0), (2, example_entry None 6 eREF_Transient)] [] (\<lambda>p. None))
    = Inr (Some 2,
        example_store [(1, example_entry None 5 0),
                       (2, \<lparr>mpResource = None, mType = 6, mDirectory = ''props/'', mName = ''crate'',
                            mFlags = 0\<rparr>)] [] (\<lambda>p. None))
   \<and> RegisterResource example_X 2 5 ''props/'' ''crate''
      (example_store [(1, example_entry None 5 0), (2, example_entry None 6 eREF_Transient)] [] (\<lambda>p. None))
    = Inl (Assertion ''pEntry->ResourceType() == Type'')
   \<and> RegisterResource example_X 3 5 ''props/'' ''crate''
      (example_store [(1, example_entry None 5 0), (2, example_entry None 6 eREF_Transient)] [] (\<lambda>p. None))
    = Inr (Some 3,
        example_store [(1, example_entry None 5 0), (2, example_entry None 6 eREF_Transient),
                       (3, \<lparr>mpResource = None, mType = 5, mDirectory = ''props/'', mName = ''crate'',
                            mFlags = 0\<rparr>)] [] (\<lambda>p. None))
   \<and> RegisterResource example_X 3 5 ''props/'' ''a/b''
      (example_store [(1, example_entry None 5 0), (2, example_entry None 6 eREF_Transient)] [] (\<lambda>p. None))
    = Inr (None,
        (example_store [(1, example_entry None 5 0), (2, example_entry None 6 eREF_Transient)] [] (\<lambda>p. None))
          \<lparr>Log := [InvalidResourcePath ''props/'' ''a/b'']\<rparr>)"
  using RegisterResource_cases [where X = example_X and S = "example_store [(1, example_entry None 5 0), (2, example_entry None 6 eREF_Transient)] [] (\<lambda>p. None)"
      and rkID = 1 and ResType = 5 and rkDir = "''props/''" and rkName = "''crate''"]
    RegisterResource_cases [where X = example_X and S = "example_store [(1, example_entry None 5 0), (2, example_entry None 6 eREF_Transient)] [] (\<lambda>p. None)"
      and rkID = 2 and ResType = 6 and rkDir = "''props/''" and rkName = "''crate''"]
    RegisterResource_cases [where X = example_X and S = "example_store [(1, example_entry None 5 0), (2, example_entry None 6 eREF_Transient)] [] (\<lambda>p. None)"
      and rkID = 2 and ResType = 5 and rkDir = "''props/''" and rkName = "''crate''"]
    RegisterResource_cases [where X = example_X and S = "example_store [(1, example_entry None 5 0), (2, example_entry None 6 eREF_Transient)] [] (\<lambda>p. None)"
      and rkID = 3 and ResType = 5 and rkDir = "''props/''" and rkName = "''crate''"]
    RegisterResource_cases [where X = example_X and S = "example_store [(1, example_entry None 5 0), (2, example_entry None 6 eREF_Transient)] [] (\<lambda>p. None)"
      and rkID = 3 and ResType = 5 and rkDir = "''props/''" and rkName = "''a/b''"]
  by (simp add: store_example_simps RegisterResource_def IsValidResourcePath_def update_entry_def
      new_CResourceEntry_def)

text \<open>
  The claim as stated fails for an identifier that \<^verbatim>\<open>IsValid\<close> rejects: \<open>FindEntry\<close> does not find
  the entry the map holds under it, which is not transient, and \<open>RegisterResource\<close> writes
  a new entry over it and logs nothing.
\<close>

theorem RegisterResource_invalid_id_not_found:
  "RegisterResource example_X 0xFFFFFFFF 6 ''props/'' ''crate''
      (example_store [(0xFFFFFFFF, example_entry None 5 0)] [] (\<lambda>p. None))
    = Inr (Some 0xFFFFFFFF,
        example_store [(0xFFFFFFFF,
                        \<lparr>mpResource = None, mType = 6, mDirectory = ''props/'', mName = ''crate'',
                         mFlags = 0\<rparr>)] [] (\<lambda>p. None))"
  by (simp add: store_example_simps RegisterResource_def IsValidResourcePath_def
      new_CResourceEntry_def)






text \<open>
  In the variant by path no entry is synthesized when \<open>FindEntry\<close> finds one under the
  identifier made from the path: the entry found is loaded, and when that load fails it
  is the entry found, here a registered one that is not transient, that is deleted.
\<close>

lemma failed_load_by_path_deletes_entry_found:
  "LoadResource_Path example_X ''/tmp/7.CMDL''
       (example_store [(7, example_entry None 5 0)] [] (\<lambda>p. Some []))
     = Inr (None, example_store [] [] (\<lambda>p. Some []))"
  by (simp add: store_example_simps LoadResource_Path_def RegisterTransientResource_def
      LoadCooked_def DeleteResourceEntry_def map_erase_def Let_def)

lemma unat_offset:
  assumes "a + unat (w :: u32) < 2 ^ 32"
  shows "unat (word_of_nat a + w :: u32) = a + unat w"
proof -
  have a: "a < 2 ^ 32" using assms by simp
  have "unat (word_of_nat a :: u32) = a"
    using a by (intro of_nat_inverse [OF refl]) simp
  then show ?thesis
    using assms by (simp add: unat_word_ariths)
qed

lemma LoadCacheFile_records_step:
  assumes "ReadAssetID F (Game V) data pos = (k, p1)" and "ReadLong data p1 = (len, p2)"
    and "p2 + unat len < 2 ^ 32"
  shows "LoadCacheFile_records X F V data (Suc n) pos S =
     LoadCacheFile_records X F V data n (p2 + unat len)
       (load_record X F V data (k, p2, p2 + unat len) S)"
proof -
  obtain b q where pb: "Reader_ParamBegin F V ''EntryCache'' data p2 = (b, q)"
    by (cases "Reader_ParamBegin F V ''EntryCache'' data p2")
  show ?thesis
  proof (cases "FindEntry X S k")
    case None
    with assms show ?thesis
      by (simp add: load_record_def unat_offset)
  next
    case (Some e)
    obtain e' q' where sc: "SerializeCacheData F V data q e = (e', q')"
      by (cases "SerializeCacheData F V data q e")
    from Some assms pb sc show ?thesis
      by (simp add: load_record_def unat_offset)
  qed
qed

lemma LoadCacheFile_records_table:
  "\<forall>r \<in> set (cache_records F (Game V) data n pos). snd (snd r) < 2 ^ 32 \<Longrightarrow>
   fst (LoadCacheFile_records X F V data n pos S) =
     fold (load_record X F V data) (cache_records F (Game V) data n pos) S"
proof (induction n arbitrary: pos S)
  case 0
  then show ?case by simp
next
  case (Suc n)
  obtain k p1 where id: "ReadAssetID F (Game V) data pos = (k, p1)"
    by (cases "ReadAssetID F (Game V) data pos")
  obtain len p2 where sz: "ReadLong data p1 = (len, p2)"
    by (cases "ReadLong data p1")
  have tab: "cache_records F (Game V) data (Suc n) pos =
      (k, p2, p2 + unat len) # cache_records F (Game V) data n (p2 + unat len)"
    by (simp add: id sz)
  from Suc.prems have bound: "p2 + unat len < 2 ^ 32"
    and rest: "\<forall>r \<in> set (cache_records F (Game V) data n (p2 + unat len)). snd (snd r) < 2 ^ 32"
    unfolding tab by simp_all
  show ?case
    unfolding LoadCacheFile_records_step [OF id sz bound] tab
    by (simp add: Suc.IH [OF rest])
qed


lemma LoadCacheFile_records_position:
  "\<forall>r \<in> set (cache_records F (Game V) data n pos). snd (snd r) < 2 ^ 32 \<Longrightarrow>
   snd (LoadCacheFile_records X F V data n pos S) =
     (if n = 0 then pos else snd (snd (last (cache_records F (Game V) data n pos))))"
proof (induction n arbitrary: pos S)
  case 0
  then show ?case by simp
next
  case (Suc n)
  obtain k p1 where id: "ReadAssetID F (Game V) data pos = (k, p1)"
    by (cases "ReadAssetID F (Game V) data pos")
  obtain len p2 where sz: "ReadLong data p1 = (len, p2)"
    by (cases "ReadLong data p1")
  have tab: "cache_records F (Game V) data (Suc n) pos =
      (k, p2, p2 + unat len) # cache_records F (Game V) data n (p2 + unat len)"
    by (simp add: id sz)
  from Suc.prems have bound: "p2 + unat len < 2 ^ 32"
    and rest: "\<forall>r \<in> set (cache_records F (Game V) data n (p2 + unat len)). snd (snd r) < 2 ^ 32"
    unfolding tab by simp_all
  have ne: "n \<noteq> 0 \<Longrightarrow> cache_records F (Game V) data n (p2 + unat len) \<noteq> []"
    by (cases n) (simp_all add: split_beta Let_def)
  show ?case
    unfolding LoadCacheFile_records_step [OF id sz bound] tab
    using ne by (simp add: Suc.IH [OF rest])
qed

lemma load_record_ignored:
  "FindEntry X S (fst r) = None \<or> (\<exists>e. FindEntry X S (fst r) = Some e \<and> IsTransient e) \<Longrightarrow>
   load_record X F V data r S = S"
  by (auto simp: load_record_def)

lemma cache_records_numeral:
  "cache_records F g data (numeral v) pos =
     (let (k, p1) = ReadAssetID F g data pos;
          (len, p2) = ReadLong data p1
      in (k, p2, p2 + unat len) # cache_records F g data (pred_numeral v) (p2 + unat len))"
  by (simp add: numeral_eq_Suc)

lemma cache_records_1:
  "cache_records F g data 1 pos =
     (let (k, p1) = ReadAssetID F g data pos;
          (len, p2) = ReadLong data p1
      in [(k, p2, p2 + unat len)])"
  by (simp add: One_nat_def [symmetric] del: One_nat_def) (simp add: One_nat_def)

lemma example_cache_table:
  "cache_records example_F 1 example_cache 3 9 = [(1, 14, 15), (9, 20, 23), (2, 28, 29)]"
  by (simp add: cache_records_numeral cache_records_1 example_F_def example_cache_def read_byte_def ReadLong_def)


text \<open>
  C2. Let the cache file open, start with the magic \<^verbatim>\<open>CACH\<close>, and let the records its
  header counts end, by their declared lengths, below \<open>2 ^ 32\<close>. Then \<open>LoadCacheFile\<close> returns
  true, and the store it leaves is the one obtained by going through the table of
  records, which depends on the declared lengths alone, and loading each record into its
  registered entry: after every record the position is the record's end, whatever was
  done with its payload, and after the last record it is the end of that record. A
  record whose identifier is not registered, or is that of a transient entry, leaves the
  store as it is, and the records after it are loaded like any other.
\<close>

theorem LoadCacheFile_skips_by_declared_length:
  assumes cfile: "contents (files S) (CacheDataPath S) = Some data"
    and magic: "[read_byte data 0, read_byte data 1, read_byte data 2, read_byte data 3] = CACH"
    and version: "ReadVersion F data 4 = (V, p1)"
    and count: "ReadLong data p1 = (NumResources, p2)"
    and bound: "\<forall>r \<in> set (cache_records F (Game V) data (unat NumResources) p2).
                  snd (snd r) < 2 ^ 32"
  shows "LoadCacheFile X F S =
           (True, fold (load_record X F V data)
                    (cache_records F (Game V) data (unat NumResources) p2) S)
     \<and> snd (LoadCacheFile_records X F V data (unat NumResources) p2 S) =
           (if unat NumResources = 0 then p2
            else snd (snd (last (cache_records F (Game V) data (unat NumResources) p2))))
     \<and> (\<forall>r S'. FindEntry X S' (fst r) = None
                  \<or> (\<exists>e. FindEntry X S' (fst r) = Some e \<and> IsTransient e)
               \<longrightarrow> load_record X F V data r S' = S')"
proof (intro conjI allI impI)
  show "LoadCacheFile X F S =
           (True, fold (load_record X F V data)
                    (cache_records F (Game V) data (unat NumResources) p2) S)"
    using cfile magic version count
    by (simp add: LoadCacheFile_def LoadCacheFile_records_table [OF bound])
  show "snd (LoadCacheFile_records X F V data (unat NumResources) p2 S) =
           (if unat NumResources = 0 then p2
            else snd (snd (last (cache_records F (Game V) data (unat NumResources) p2))))"
    by (rule LoadCacheFile_records_position [OF bound])
next
  fix r :: "CAssetID \<times> nat \<times> nat" and S' :: CResourceStore
  assume "FindEntry X S' (fst r) = None
            \<or> (\<exists>e. FindEntry X S' (fst r) = Some e \<and> IsTransient e)"
  then show "load_record X F V data r S' = S'"
    by (rule load_record_ignored)
qed

theorem LoadCacheFile_skips_by_declared_length_witness:
  "LoadCacheFile example_X example_F (example_cached_store 0 0) = (True, example_cached_store 4 1)"
  using LoadCacheFile_skips_by_declared_length [where X = example_X and F = example_F
      and S = "example_cached_store 0 0" and data = example_cache
      and V = "\<lparr>ArchiveVer = 0, FileVer = 0, Game = 1\<rparr>" and ?p1.0 = 5 and NumResources = 3
      and ?p2.0 = 9]
    example_cache_table
  by (simp add: example_cached_store_def store_example_simps example_F_def load_record_def
      update_entry_def CACH_def)
     (simp add: example_cache_def read_byte_def ReadLong_def)

text \<open>
  What \<open>DestroyUnreferencedResources\<close> does to the store. \<open>unloads_to\<close> is reflexive and, through
  stores that satisfy the invariant of the loaded-map, transitive.
\<close>

lemma unloads_to_refl: "unloads_to S S"
  by (auto simp: unloads_to_def)

lemma unloads_to_trans:
  assumes a: "unloads_to S S1" and b: "unloads_to S1 S2" and ok: "loaded_map_ok S1"
  shows "unloads_to S S2"
proof -
  have c1: "set (mLoadedResources S2) \<subseteq> set (mLoadedResources S)"
    using a b by (auto simp: unloads_to_def)
  have c2: "\<forall>k. map_of (mResourceEntries S) k = None \<longrightarrow> map_of (mResourceEntries S2) k = None"
    using a b by (auto simp: unloads_to_def)
  have c3: "\<forall>k e'. map_of (mResourceEntries S2) k = Some e' \<longrightarrow>
             (\<exists>e. map_of (mResourceEntries S) k = Some e \<and> mFlags e' = mFlags e)"
  proof (intro allI impI)
    fix k e' assume "map_of (mResourceEntries S2) k = Some e'"
    with b obtain e1 where "map_of (mResourceEntries S1) k = Some e1" "mFlags e' = mFlags e1"
      unfolding unloads_to_def by blast
    moreover from this a obtain e where "map_of (mResourceEntries S) k = Some e" "mFlags e1 = mFlags e"
      unfolding unloads_to_def by blast
    ultimately show "\<exists>e. map_of (mResourceEntries S) k = Some e \<and> mFlags e' = mFlags e"
      by simp
  qed
  have mono12: "\<And>k r'. Resource_of S2 k = Some r' \<Longrightarrow>
      \<exists>r. Resource_of S1 k = Some r \<and> held r' = held r \<and> mRefCount r' \<le> mRefCount r"
    using b unfolding unloads_to_def by blast
  have mono01: "\<And>k r'. Resource_of S1 k = Some r' \<Longrightarrow>
      \<exists>r. Resource_of S k = Some r \<and> held r' = held r \<and> mRefCount r' \<le> mRefCount r"
    using a unfolding unloads_to_def by blast
  have c4: "\<forall>k r'. Resource_of S2 k = Some r' \<longrightarrow>
             (\<exists>r. Resource_of S k = Some r \<and> held r' = held r \<and> mRefCount r' \<le> mRefCount r)"
  proof (intro allI impI)
    fix k r' assume "Resource_of S2 k = Some r'"
    from mono12 [OF this] obtain r1 where r1: "Resource_of S1 k = Some r1" "held r' = held r1"
      "mRefCount r' \<le> mRefCount r1" by blast
    from mono01 [OF r1(1)] obtain r where "Resource_of S k = Some r" "held r1 = held r"
      "mRefCount r1 \<le> mRefCount r" by blast
    with r1 show "\<exists>r. Resource_of S k = Some r \<and> held r' = held r \<and> mRefCount r' \<le> mRefCount r"
      by simp
  qed
  have c5: "\<forall>p \<in> set (mLoadedResources S) - set (mLoadedResources S2).
       Resource_of S2 p = None
     \<and> (transient_in S p \<longrightarrow> map_of (mResourceEntries S2) p = None)
     \<and> (\<forall>r t r'. Resource_of S p = Some r \<and> t \<in> set (held r) \<and> Resource_of S2 t = Some r'
           \<longrightarrow> (\<exists>rt. Resource_of S t = Some rt \<and> mRefCount r' \<le> mRefCount rt - 1))"
  proof
    fix p assume p: "p \<in> set (mLoadedResources S) - set (mLoadedResources S2)"
    show "Resource_of S2 p = None
     \<and> (transient_in S p \<longrightarrow> map_of (mResourceEntries S2) p = None)
     \<and> (\<forall>r t r'. Resource_of S p = Some r \<and> t \<in> set (held r) \<and> Resource_of S2 t = Some r'
           \<longrightarrow> (\<exists>rt. Resource_of S t = Some rt \<and> mRefCount r' \<le> mRefCount rt - 1))"
    proof (cases "p \<in> set (mLoadedResources S1)")
      case False
      with p have p1: "p \<in> set (mLoadedResources S) - set (mLoadedResources S1)" by simp
      with a have g: "Resource_of S1 p = None"
        "transient_in S p \<longrightarrow> map_of (mResourceEntries S1) p = None"
        "\<And>r t r'. Resource_of S p = Some r \<Longrightarrow> t \<in> set (held r) \<Longrightarrow> Resource_of S1 t = Some r'
             \<Longrightarrow> (\<exists>rt. Resource_of S t = Some rt \<and> mRefCount r' \<le> mRefCount rt - 1)"
        unfolding unloads_to_def by blast+
      have 1: "Resource_of S2 p = None"
        using g(1) mono12 [of p] by (cases "Resource_of S2 p") auto
      have 2: "transient_in S p \<longrightarrow> map_of (mResourceEntries S2) p = None"
        using g(2) b unfolding unloads_to_def by blast
      have 3: "\<exists>rt. Resource_of S t = Some rt \<and> mRefCount r' \<le> mRefCount rt - 1"
        if "Resource_of S p = Some r" "t \<in> set (held r)" "Resource_of S2 t = Some r'" for r t r'
      proof -
        from mono12 [OF that(3)] obtain r1 where r1: "Resource_of S1 t = Some r1"
          "mRefCount r' \<le> mRefCount r1"
          by blast
        from g(3) [OF that(1,2) r1(1)] obtain rt where "Resource_of S t = Some rt"
          "mRefCount r1 \<le> mRefCount rt - 1"
          by blast
        with r1 show ?thesis by auto
      qed
      from 1 2 3 show ?thesis by blast
    next
      case True
      with p have p2: "p \<in> set (mLoadedResources S1) - set (mLoadedResources S2)" by simp
      with b have g: "Resource_of S2 p = None"
        "transient_in S1 p \<longrightarrow> map_of (mResourceEntries S2) p = None"
        "\<And>r t r'. Resource_of S1 p = Some r \<Longrightarrow> t \<in> set (held r) \<Longrightarrow> Resource_of S2 t = Some r'
             \<Longrightarrow> (\<exists>rt. Resource_of S1 t = Some rt \<and> mRefCount r' \<le> mRefCount rt - 1)"
        unfolding unloads_to_def by blast+
      from ok True obtain r1 where r1: "Resource_of S1 p = Some r1"
        unfolding loaded_map_ok_def by blast
      then obtain e1 where e1: "map_of (mResourceEntries S1) p = Some e1"
        by (auto simp: Resource_of_def split: option.splits)
      with a obtain e where e: "map_of (mResourceEntries S) p = Some e" "mFlags e1 = mFlags e"
        unfolding unloads_to_def by blast
      have tr: "transient_in S1 p = transient_in S p"
        using e1 e by (simp add: transient_in_def IsTransient_def)
      have 3: "\<exists>rt. Resource_of S t = Some rt \<and> mRefCount r' \<le> mRefCount rt - 1"
        if "Resource_of S p = Some r" "t \<in> set (held r)" "Resource_of S2 t = Some r'" for r t r'
      proof -
        from mono01 [OF r1] that(1) have "held r1 = held r" by auto
        with that(2) have "t \<in> set (held r1)" by simp
        from g(3) [OF r1 this that(3)] obtain rt1 where rt1: "Resource_of S1 t = Some rt1"
          "mRefCount r' \<le> mRefCount rt1 - 1" by blast
        from mono01 [OF rt1(1)] obtain rt where "Resource_of S t = Some rt"
          "mRefCount rt1 \<le> mRefCount rt"
          by blast
        with rt1 show ?thesis by auto
      qed
      from g(1) g(2) tr 3 show ?thesis by blast
    qed
  qed
  from c1 c2 c3 c4 c5 show ?thesis
    unfolding unloads_to_def by (intro conjI)
qed


text \<open>
  \<open>Unload\<close> of an entry whose payload is unreferenced succeeds; it keeps every key of the
  entries map, clears the payload of the entry and takes from the count of each other
  payload the number of references the released payload held to it.
\<close>

lemma map_of_Release:
  "map_of (Release t m) k
     = map_option
         (\<lambda>e. e\<lparr>mpResource :=
                  map_option (\<lambda>r. r\<lparr>mRefCount := mRefCount r - (if t = k then 1 else 0)\<rparr>) (mpResource e)\<rparr>)
         (map_of m k)"
proof -
  have "(\<lambda>e::CResourceEntry. e\<lparr>mpResource := map_option (\<lambda>r. r\<lparr>mRefCount := mRefCount r - 0\<rparr>) (mpResource e)\<rparr>)
        = (\<lambda>e. e)"
    by (rule ext) (simp add: option.map_ident)
  then show ?thesis
    by (auto simp: Release_def map_of_update_entry option.map_ident)
qed

lemma map_of_fold_Release:
  "map_of (fold Release ts m) k
     = map_option
         (\<lambda>e. e\<lparr>mpResource :=
                  map_option (\<lambda>r. r\<lparr>mRefCount := mRefCount r - count_list ts k\<rparr>) (mpResource e)\<rparr>)
         (map_of m k)"
proof (induction ts arbitrary: m)
  case Nil
  have "(\<lambda>e::CResourceEntry. e\<lparr>mpResource := map_option (\<lambda>r. r\<lparr>mRefCount := mRefCount r - 0\<rparr>) (mpResource e)\<rparr>)
        = (\<lambda>e. e)"
    by (rule ext) (simp add: option.map_ident)
  then show ?case by (simp add: option.map_ident)
next
  case (Cons t ts)
  have "map_of (fold Release (t # ts) m) k = map_of (fold Release ts (Release t m)) k"
    by simp
  also have "\<dots> = map_option
         (\<lambda>e. e\<lparr>mpResource :=
                  map_option (\<lambda>r. r\<lparr>mRefCount := mRefCount r - count_list ts k\<rparr>) (mpResource e)\<rparr>)
         (map_of (Release t m) k)"
    by (rule Cons.IH)
  also have "\<dots> = map_option
         (\<lambda>e. e\<lparr>mpResource :=
                  map_option (\<lambda>r. r\<lparr>mRefCount := mRefCount r - count_list (t # ts) k\<rparr>) (mpResource e)\<rparr>)
         (map_of m k)"
    by (cases "map_of m k") (simp_all add: map_of_Release option.map_comp comp_def)
  finally show ?case .
qed

lemma Resource_of_Unload:
  assumes "Resource_of S p = Some r" "\<not> IsReferenced r"
  shows "fst (Unload p S)"
    and "map_of (mResourceEntries (snd (Unload p S))) k
         = map_option
             (\<lambda>e. e\<lparr>mpResource :=
                  map_option (\<lambda>r'. r'\<lparr>mRefCount := mRefCount r' - count_list (held r) k\<rparr>)
                    (if k = p then None else mpResource e)\<rparr>)
             (map_of (mResourceEntries S) k)"
  using assms
  by (auto simp: Unload_def Resource_of_def map_of_fold_Release map_of_update_entry
      option.map_comp comp_def split: option.splits)


lemma Resource_of_after_Unload:
  assumes "Resource_of S p = Some r" "\<not> IsReferenced r"
    and "\<And>k. map_of (mResourceEntries S1) k = map_of (mResourceEntries (snd (Unload p S))) k"
  shows "Resource_of S1 k =
           (if k = p then None
            else map_option (\<lambda>r'. r'\<lparr>mRefCount := mRefCount r' - count_list (held r) k\<rparr>) (Resource_of S k))"
  using assms(3) [of k] Resource_of_Unload(2) [OF assms(1,2), of k]
  by (cases "map_of (mResourceEntries S) k") (simp_all add: Resource_of_def)

text \<open>
  One iteration of the inner loop that unloads the entry at the iterator: for an entry that
  is not transient, and for a transient one, whose \<open>DeleteResourceEntry\<close> returns true and
  erases it from the entries map.
\<close>

lemma unload_step_kept:
  assumes ok: "loaded_map_ok S" and l: "mLoadedResources S = kept @ p # todo"
    and e: "map_of (mResourceEntries S) p = Some pEntry" and r: "mpResource pEntry = Some r"
    and nr: "\<not> IsReferenced r" and nt: "\<not> IsTransient pEntry"
    and S1: "S1 = (snd (Unload p S))\<lparr>mLoadedResources := kept @ todo\<rparr>"
  shows "unloads_to S S1" and "loaded_map_ok S1"
proof -
  have rp: "Resource_of S p = Some r"
    using e r by (simp add: Resource_of_def)
  have E: "map_of (mResourceEntries S1) k
         = map_option
             (\<lambda>e. e\<lparr>mpResource :=
                  map_option (\<lambda>r'. r'\<lparr>mRefCount := mRefCount r' - count_list (held r) k\<rparr>)
                    (if k = p then None else mpResource e)\<rparr>)
             (map_of (mResourceEntries S) k)" for k
    using Resource_of_Unload(2) [OF rp nr] by (simp add: S1)
  have R: "Resource_of S1 k =
           (if k = p then None
            else map_option (\<lambda>r'. r'\<lparr>mRefCount := mRefCount r' - count_list (held r) k\<rparr>) (Resource_of S k))"
    for k
    by (rule Resource_of_after_Unload [OF rp nr]) (simp add: S1)
  have L1: "mLoadedResources S1 = kept @ todo"
    by (simp add: S1)
  have d: "distinct (kept @ p # todo)"
    using ok l by (simp add: loaded_map_ok_def)
  then have pn: "p \<notin> set (kept @ todo)" by auto
  have gone: "set (mLoadedResources S) - set (mLoadedResources S1) = {p}"
    using pn by (auto simp: l L1)
  have ntr: "\<not> transient_in S p"
    using e nt by (simp add: transient_in_def)
  have c5: "\<exists>rt. Resource_of S t = Some rt \<and> mRefCount r' \<le> mRefCount rt - 1"
    if "t \<in> set (held r)" "Resource_of S1 t = Some r'" for t r'
  proof -
    from that(1) have "count_list (held r) t \<ge> 1"
      using count_list_0_iff [of "held r" t] by (cases "count_list (held r) t") simp_all
    with that(2) show ?thesis
      by (auto simp: R split: if_splits)
  qed
  show "unloads_to S S1"
    unfolding unloads_to_def gone
  proof (intro conjI)
    show "set (mLoadedResources S1) \<subseteq> set (mLoadedResources S)"
      by (auto simp: l L1)
    show "\<forall>k. map_of (mResourceEntries S) k = None \<longrightarrow> map_of (mResourceEntries S1) k = None"
      by (simp add: E)
    show "\<forall>k e'. map_of (mResourceEntries S1) k = Some e' \<longrightarrow>
             (\<exists>e. map_of (mResourceEntries S) k = Some e \<and> mFlags e' = mFlags e)"
      by (auto simp: E)
    show "\<forall>k r'. Resource_of S1 k = Some r' \<longrightarrow>
             (\<exists>r. Resource_of S k = Some r \<and> held r' = held r \<and> mRefCount r' \<le> mRefCount r)"
      by (auto simp: R split: if_splits)
    show "\<forall>p\<in>{p}. Resource_of S1 p = None \<and>
           (transient_in S p \<longrightarrow> map_of (mResourceEntries S1) p = None) \<and>
           (\<forall>r t r'. Resource_of S p = Some r \<and> t \<in> set (held r) \<and> Resource_of S1 t = Some r' \<longrightarrow>
               (\<exists>rt. Resource_of S t = Some rt \<and> mRefCount r' \<le> mRefCount rt - 1))"
      using ntr c5 by (simp add: R rp)
  qed
  show "loaded_map_ok S1"
    unfolding loaded_map_ok_def L1
  proof (intro conjI ballI)
    show "distinct (kept @ todo)" using d by simp
    fix q assume q: "q \<in> set (kept @ todo)"
    with pn have "q \<noteq> p" by auto
    moreover from q ok l have "Resource_of S q \<noteq> None"
      by (auto simp: loaded_map_ok_def)
    ultimately show "Resource_of S1 q \<noteq> None"
      by (simp add: R)
  qed
qed

lemma unload_step_transient:
  assumes ok: "loaded_map_ok S" and l: "mLoadedResources S = kept @ p # todo"
    and e: "map_of (mResourceEntries S) p = Some pEntry" and r: "mpResource pEntry = Some r"
    and nr: "\<not> IsReferenced r" and tr: "IsTransient pEntry"
    and S1: "S1 = (snd (Unload p S))\<lparr>mLoadedResources := kept @ todo\<rparr>"
    and S2: "S2 = S1\<lparr>mResourceEntries := map_erase p (mResourceEntries S1)\<rparr>"
  shows "DeleteResourceEntry p S1 = Inr (True, S2)" and "unloads_to S S2" and "loaded_map_ok S2"
    and "mLoadedResources S2 = kept @ todo"
proof -
  have rp: "Resource_of S p = Some r"
    using e r by (simp add: Resource_of_def)
  have E1: "map_of (mResourceEntries S1) k
         = map_option
             (\<lambda>e. e\<lparr>mpResource :=
                  map_option (\<lambda>r'. r'\<lparr>mRefCount := mRefCount r' - count_list (held r) k\<rparr>)
                    (if k = p then None else mpResource e)\<rparr>)
             (map_of (mResourceEntries S) k)" for k
    using Resource_of_Unload(2) [OF rp nr] by (simp add: S1)
  show "DeleteResourceEntry p S1 = Inr (True, S2)"
    using E1 [of p] e by (simp add: DeleteResourceEntry_def IsLoaded_def S2)
  have E: "map_of (mResourceEntries S2) k
         = (if k = p then None else map_option
             (\<lambda>e. e\<lparr>mpResource :=
                  map_option (\<lambda>r'. r'\<lparr>mRefCount := mRefCount r' - count_list (held r) k\<rparr>)
                    (mpResource e)\<rparr>)
             (map_of (mResourceEntries S) k))" for k
    using E1 [of k] by (simp add: S2 map_of_map_erase)
  have R: "Resource_of S2 k =
           (if k = p then None
            else map_option (\<lambda>r'. r'\<lparr>mRefCount := mRefCount r' - count_list (held r) k\<rparr>) (Resource_of S k))"
    for k
    by (cases "map_of (mResourceEntries S) k") (simp_all add: Resource_of_def E)
  show L1: "mLoadedResources S2 = kept @ todo"
    by (simp add: S1 S2)
  have d: "distinct (kept @ p # todo)"
    using ok l by (simp add: loaded_map_ok_def)
  then have pn: "p \<notin> set (kept @ todo)" by auto
  have gone: "set (mLoadedResources S) - set (mLoadedResources S2) = {p}"
    using pn by (auto simp: l L1)
  have c5: "\<exists>rt. Resource_of S t = Some rt \<and> mRefCount r' \<le> mRefCount rt - 1"
    if "t \<in> set (held r)" "Resource_of S2 t = Some r'" for t r'
  proof -
    from that(1) have "count_list (held r) t \<ge> 1"
      using count_list_0_iff [of "held r" t] by (cases "count_list (held r) t") simp_all
    with that(2) show ?thesis
      by (auto simp: R split: if_splits)
  qed
  show "unloads_to S S2"
    unfolding unloads_to_def gone
  proof (intro conjI)
    show "set (mLoadedResources S2) \<subseteq> set (mLoadedResources S)"
      by (auto simp: l L1)
    show "\<forall>k. map_of (mResourceEntries S) k = None \<longrightarrow> map_of (mResourceEntries S2) k = None"
      by (simp add: E)
    show "\<forall>k e'. map_of (mResourceEntries S2) k = Some e' \<longrightarrow>
             (\<exists>e. map_of (mResourceEntries S) k = Some e \<and> mFlags e' = mFlags e)"
      by (auto simp: E split: if_splits)
    show "\<forall>k r'. Resource_of S2 k = Some r' \<longrightarrow>
             (\<exists>r. Resource_of S k = Some r \<and> held r' = held r \<and> mRefCount r' \<le> mRefCount r)"
      by (auto simp: R split: if_splits)
    show "\<forall>p\<in>{p}. Resource_of S2 p = None \<and>
           (transient_in S p \<longrightarrow> map_of (mResourceEntries S2) p = None) \<and>
           (\<forall>r t r'. Resource_of S p = Some r \<and> t \<in> set (held r) \<and> Resource_of S2 t = Some r' \<longrightarrow>
               (\<exists>rt. Resource_of S t = Some rt \<and> mRefCount r' \<le> mRefCount rt - 1))"
      using c5 by (simp add: R rp E)
  qed
  show "loaded_map_ok S2"
    unfolding loaded_map_ok_def L1
  proof (intro conjI ballI)
    show "distinct (kept @ todo)" using d by simp
    fix q assume q: "q \<in> set (kept @ todo)"
    with pn have "q \<noteq> p" by auto
    moreover from q ok l have "Resource_of S q \<noteq> None"
      by (auto simp: loaded_map_ok_def)
    ultimately show "Resource_of S2 q \<noteq> None"
      by (simp add: R)
  qed
qed


text \<open>
  One pass returns; \<^verbatim>\<open>NumDeleted\<close> has grown by the number \<open>d\<close> of entries it unloaded, and a pass
  with \<open>d = 0\<close> has left the store as it was and has found every entry referenced.
\<close>

lemma DestroyUnreferencedResources_pass_spec:
  assumes "loaded_map_ok S" "mLoadedResources S = kept @ todo"
  shows "\<exists>S' d. DestroyUnreferencedResources_pass kept todo S n = Inr (S', n + word_of_nat d)
           \<and> d \<le> length todo \<and> unloads_to S S' \<and> loaded_map_ok S'
           \<and> (d = 0 \<longrightarrow> S' = S \<and> (\<forall>p \<in> set todo. \<exists>r. Resource_of S p = Some r \<and> IsReferenced r))"
  using assms
proof (induction todo arbitrary: kept S n)
  case Nil
  show ?case
    using Nil.prems(1) by (auto simp: unloads_to_refl intro!: exI [of _ 0])
next
  case (Cons p todo)
  from Cons.prems have "Resource_of S p \<noteq> None"
    by (simp add: loaded_map_ok_def)
  then obtain pEntry r where e: "map_of (mResourceEntries S) p = Some pEntry"
    and r: "mpResource pEntry = Some r"
    by (auto simp: Resource_of_def split: option.splits)
  have rp: "Resource_of S p = Some r"
    using e r by (simp add: Resource_of_def)
  show ?case
  proof (cases "IsReferenced r")
    case True
    have step: "DestroyUnreferencedResources_pass kept (p # todo) S n
                = DestroyUnreferencedResources_pass (kept @ [p]) todo S n"
      using e r True by simp
    from Cons.IH [of S "kept @ [p]" n] Cons.prems
    obtain S' d where
      "DestroyUnreferencedResources_pass (kept @ [p]) todo S n = Inr (S', n + word_of_nat d)"
      "d \<le> length todo" "unloads_to S S'" "loaded_map_ok S'"
      "d = 0 \<longrightarrow> S' = S \<and> (\<forall>p \<in> set todo. \<exists>r. Resource_of S p = Some r \<and> IsReferenced r)"
      by auto
    with step rp True show ?thesis
      by (intro exI [of _ S'] exI [of _ d]) auto
  next
    case False
    define S1 where "S1 = (snd (Unload p S))\<lparr>mLoadedResources := kept @ todo\<rparr>"
    have u: "fst (Unload p S)"
      by (rule Resource_of_Unload(1) [OF rp False])
    show ?thesis
    proof (cases "IsTransient pEntry")
      case nt: False
      have step: "DestroyUnreferencedResources_pass kept (p # todo) S n
                  = DestroyUnreferencedResources_pass kept todo S1 (n + 1)"
        using e r False u nt by (simp add: S1_def Let_def)
      note s = unload_step_kept [OF Cons.prems(1) Cons.prems(2) e r False nt S1_def]
      have l1: "mLoadedResources S1 = kept @ todo" by (simp add: S1_def)
      from Cons.IH [OF s(2) l1, of "n + 1"] obtain S' d where
        d: "DestroyUnreferencedResources_pass kept todo S1 (n + 1) = Inr (S', n + 1 + word_of_nat d)"
        "d \<le> length todo" "unloads_to S1 S'" "loaded_map_ok S'"
        by auto
      have "unloads_to S S'"
        by (rule unloads_to_trans [OF s(1) d(3) s(2)])
      with step d show ?thesis
        by (intro exI [of _ S'] exI [of _ "Suc d"]) (simp add: add.assoc)
    next
      case tr: True
      define S2 where "S2 = S1\<lparr>mResourceEntries := map_erase p (mResourceEntries S1)\<rparr>"
      note s = unload_step_transient [OF Cons.prems(1) Cons.prems(2) e r False tr S1_def S2_def]
      have step: "DestroyUnreferencedResources_pass kept (p # todo) S n
                  = DestroyUnreferencedResources_pass kept todo S2 (n + 1)"
        using e r False u tr s(1) by (simp add: S1_def [symmetric] Let_def)
      from Cons.IH [OF s(3) s(4), of "n + 1"] obtain S' d where
        d: "DestroyUnreferencedResources_pass kept todo S2 (n + 1) = Inr (S', n + 1 + word_of_nat d)"
        "d \<le> length todo" "unloads_to S2 S'" "loaded_map_ok S'"
        by auto
      have "unloads_to S S'"
        by (rule unloads_to_trans [OF s(2) d(3) s(3)])
      with step d show ?thesis
        by (intro exI [of _ S'] exI [of _ "Suc d"]) (simp add: add.assoc)
    qed
  qed
qed

lemma unloads_to_length:
  assumes "unloads_to S S'" "loaded_map_ok S'"
  shows "length (mLoadedResources S') \<le> length (mLoadedResources S)"
proof -
  have "length (mLoadedResources S') = card (set (mLoadedResources S'))"
    using assms(2) by (simp add: loaded_map_ok_def distinct_card)
  also have "\<dots> \<le> card (set (mLoadedResources S))"
    using assms(1) by (intro card_mono) (simp_all add: unloads_to_def)
  also have "\<dots> \<le> length (mLoadedResources S)"
    by (rule card_length)
  finally show ?thesis .
qed

text \<open>
  The loop returns, for a loaded-map of fewer than \<open>2 ^ 32\<close> entries (\<^verbatim>\<open>NumDeleted\<close> is a \<^verbatim>\<open>u32\<close>),
  in a store on which a further pass unloads nothing.
\<close>

lemma DestroyUnreferencedResources_loop_spec:
  "loaded_map_ok S \<Longrightarrow> length (mLoadedResources S) < 2 ^ 32 \<Longrightarrow>
   \<exists>S'. DestroyUnreferencedResources_loop S = Inr S' \<and> unloads_to S S' \<and> loaded_map_ok S'
        \<and> (\<forall>p \<in> set (mLoadedResources S'). \<exists>r. Resource_of S' p = Some r \<and> IsReferenced r)
        \<and> DestroyUnreferencedResources_pass [] (mLoadedResources S') S' 0 = Inr (S', 0)"
proof (induction S rule: DestroyUnreferencedResources_loop.induct)
  case (1 S)
  from DestroyUnreferencedResources_pass_spec [of S "[]" "mLoadedResources S" 0] "1.prems"(1)
  obtain S1 d where
    p: "DestroyUnreferencedResources_pass [] (mLoadedResources S) S 0 = Inr (S1, word_of_nat d)"
    and d: "d \<le> length (mLoadedResources S)" and u: "unloads_to S S1" and ok1: "loaded_map_ok S1"
    and z: "d = 0 \<longrightarrow> S1 = S \<and> (\<forall>p \<in> set (mLoadedResources S). \<exists>r. Resource_of S p = Some r \<and> IsReferenced r)"
    by auto
  show ?case
  proof (cases "d = 0")
    case True
    with z p have "DestroyUnreferencedResources_loop S = Inr S"
      by (simp add: DestroyUnreferencedResources_loop.simps)
    with True z p "1.prems"(1) show ?thesis
      by (auto simp: unloads_to_refl)
  next
    case False
    have "unat (word_of_nat d :: u32) = d"
      using d "1.prems"(2) by (intro of_nat_inverse [OF refl]) simp
    with False have pos: "(0 :: u32) < word_of_nat d"
      by (simp add: word_greater_zero_iff unat_eq_0 [symmetric] del: unat_eq_0)
    have len: "length (mLoadedResources S1) < 2 ^ 32"
      using unloads_to_length [OF u ok1] "1.prems"(2) by simp
    from "1.IH" [OF p refl pos ok1 len] obtain S' where
      s: "DestroyUnreferencedResources_loop S1 = Inr S'" "unloads_to S1 S'" "loaded_map_ok S'"
      "\<forall>p \<in> set (mLoadedResources S'). \<exists>r. Resource_of S' p = Some r \<and> IsReferenced r"
      "DestroyUnreferencedResources_pass [] (mLoadedResources S') S' 0 = Inr (S', 0)"
      by auto
    have "DestroyUnreferencedResources_loop S = Inr S'"
      using p pos s(1) by (subst DestroyUnreferencedResources_loop.simps) simp
    moreover have "unloads_to S S'"
      by (rule unloads_to_trans [OF u s(2) ok1])
    ultimately show ?thesis
      using s by auto
  qed
qed


text \<open>
  With the loop returning, \<open>DestroyUnreferencedResources\<close> is the sweep of the transient roots
  run on the store the loop has left: wherever the sweep returns, the call returns that
  store with the roots swept, in which a further pass unloads nothing, the entries \<open>A\<close> and
  \<open>B\<close> of a chain are both unloaded and every transient entry unloaded is gone from the
  entries map.
\<close>

lemma DestroyUnreferencedResources_loop_then_sweep:
  assumes ok: "loaded_map_ok S" and len: "length (mLoadedResources S) < 2 ^ 32"
  shows "\<exists>S1. DestroyUnreferencedResources_loop S = Inr S1
           \<and> DestroyUnreferencedResources X S =
               (case DestroyEmptyRoots X (mResourceEntries S1) [] (mTransientRoots S1) of
                  Inl f \<Rightarrow> Inl f
                | Inr roots \<Rightarrow> Inr (S1\<lparr>mTransientRoots := roots\<rparr>))
           \<and> DestroyUnreferencedResources_pass [] (mLoadedResources S1) S1 0 = Inr (S1, 0)
           \<and> (\<forall>p \<in> set (mLoadedResources S1). \<exists>r. Resource_of S1 p = Some r \<and> IsReferenced r)
           \<and> (\<forall>A B rA rB.
                 A \<in> set (mLoadedResources S) \<and> B \<in> set (mLoadedResources S)
                 \<and> Resource_of S A = Some rA \<and> Resource_of S B = Some rB
                 \<and> A \<in> set (held rB) \<and> mRefCount rA = 1 \<and> mRefCount rB = 0
                 \<longrightarrow> A \<notin> set (mLoadedResources S1) \<and> B \<notin> set (mLoadedResources S1)
                     \<and> Resource_of S1 A = None \<and> Resource_of S1 B = None)
           \<and> (\<forall>p \<in> set (mLoadedResources S) - set (mLoadedResources S1).
                 Resource_of S1 p = None
                 \<and> (transient_in S p \<longrightarrow> map_of (mResourceEntries S1) p = None))"
proof -
  from DestroyUnreferencedResources_loop_spec [OF ok len] obtain S' where
    run: "DestroyUnreferencedResources_loop S = Inr S'" and u: "unloads_to S S'"
    and ok': "loaded_map_ok S'"
    and refd: "\<forall>p \<in> set (mLoadedResources S'). \<exists>r. Resource_of S' p = Some r \<and> IsReferenced r"
    and fixed: "DestroyUnreferencedResources_pass [] (mLoadedResources S') S' 0 = Inr (S', 0)"
    by blast
  have mono: "\<exists>r. Resource_of S k = Some r \<and> held r' = held r \<and> mRefCount r' \<le> mRefCount r"
    if "Resource_of S' k = Some r'" for k r'
    using u that unfolding unloads_to_def by blast
  have left: "Resource_of S' p = None
      \<and> (transient_in S p \<longrightarrow> map_of (mResourceEntries S') p = None)
      \<and> (\<forall>r t r'. Resource_of S p = Some r \<and> t \<in> set (held r) \<and> Resource_of S' t = Some r'
            \<longrightarrow> (\<exists>rt. Resource_of S t = Some rt \<and> mRefCount r' \<le> mRefCount rt - 1))"
    if "p \<in> set (mLoadedResources S) - set (mLoadedResources S')" for p
    using u that unfolding unloads_to_def by blast
  have chain: "A \<notin> set (mLoadedResources S') \<and> B \<notin> set (mLoadedResources S')
                \<and> Resource_of S' A = None \<and> Resource_of S' B = None"
    if A: "A \<in> set (mLoadedResources S)" and B: "B \<in> set (mLoadedResources S)"
      and rA: "Resource_of S A = Some rA" and rB: "Resource_of S B = Some rB"
      and h: "A \<in> set (held rB)" and cA: "mRefCount rA = 1" and cB: "mRefCount rB = 0"
    for A B rA rB
  proof -
    have Bout: "B \<notin> set (mLoadedResources S')"
    proof
      assume "B \<in> set (mLoadedResources S')"
      with refd obtain r' where r': "Resource_of S' B = Some r'" "IsReferenced r'" by blast
      from mono [OF r'(1)] rB cB have "mRefCount r' = 0" by auto
      with r'(2) show False by (simp add: IsReferenced_def)
    qed
    with B have Bleft: "B \<in> set (mLoadedResources S) - set (mLoadedResources S')" by simp
    have Aout: "A \<notin> set (mLoadedResources S')"
    proof
      assume "A \<in> set (mLoadedResources S')"
      with refd obtain r' where r': "Resource_of S' A = Some r'" "IsReferenced r'" by blast
      from left [OF Bleft] rB h r'(1) obtain rt where
        "Resource_of S A = Some rt" "mRefCount r' \<le> mRefCount rt - 1"
        by blast
      with rA cA have "mRefCount r' = 0" by simp
      with r'(2) show False by (simp add: IsReferenced_def)
    qed
    with A have "A \<in> set (mLoadedResources S) - set (mLoadedResources S')" by simp
    from left [OF this] left [OF Bleft] Aout Bout show ?thesis by simp
  qed
  show ?thesis
  proof (intro exI [of _ S'] conjI)
    show "DestroyUnreferencedResources_loop S = Inr S'" by (rule run)
    show "DestroyUnreferencedResources X S =
               (case DestroyEmptyRoots X (mResourceEntries S') [] (mTransientRoots S') of
                  Inl f \<Rightarrow> Inl f
                | Inr roots \<Rightarrow> Inr (S'\<lparr>mTransientRoots := roots\<rparr>))"
      by (simp add: DestroyUnreferencedResources_def run)
    show "DestroyUnreferencedResources_pass [] (mLoadedResources S') S' 0 = Inr (S', 0)"
      by (rule fixed)
    show "\<forall>p \<in> set (mLoadedResources S'). \<exists>r. Resource_of S' p = Some r \<and> IsReferenced r"
      by (rule refd)
    show "\<forall>A B rA rB.
                 A \<in> set (mLoadedResources S) \<and> B \<in> set (mLoadedResources S)
                 \<and> Resource_of S A = Some rA \<and> Resource_of S B = Some rB
                 \<and> A \<in> set (held rB) \<and> mRefCount rA = 1 \<and> mRefCount rB = 0
                 \<longrightarrow> A \<notin> set (mLoadedResources S') \<and> B \<notin> set (mLoadedResources S')
                     \<and> Resource_of S' A = None \<and> Resource_of S' B = None"
      using chain by blast
    show "\<forall>p \<in> set (mLoadedResources S) - set (mLoadedResources S').
                 Resource_of S' p = None
                 \<and> (transient_in S p \<longrightarrow> map_of (mResourceEntries S') p = None)"
      using left by blast
  qed
qed

text \<open>
  The sweep returns unless it erases the last root of the vector: a vector whose last
  root is not empty is swept without a fault.
\<close>

lemma DestroyEmptyRoots_last_not_empty:
  "todo \<noteq> [] \<Longrightarrow> \<not> IsEmpty X m (last todo) \<Longrightarrow> \<exists>roots. DestroyEmptyRoots X m passed todo = Inr roots"
proof (induction X m passed todo rule: DestroyEmptyRoots.induct)
  case (3 X m passed pRoot pNext todo)
  then show ?case
    by (cases "todo = []") (auto split: if_splits)
qed simp_all

lemma DestroyEmptyRoots_last_empty:
  "IsEmpty X m pRoot \<Longrightarrow> DestroyEmptyRoots X m passed [pRoot] = Inl IteratorPastEnd"
  by simp

text \<open>
  The example chain satisfies the invariant of the loaded-map. The first pass keeps the
  entry 1, whose payload is referenced when the iterator is at it, and unloads and deletes
  the transient entry 2; the second pass unloads the entry 1; the third unloads nothing,
  and the loop ends.
\<close>

lemma example_chain_loaded_map_ok: "loaded_map_ok example_chain"
  by (simp add: loaded_map_ok_def Resource_of_def example_chain_def store_example_simps)

lemma example_chain_first_pass:
  "DestroyUnreferencedResources_pass [] (mLoadedResources example_chain) example_chain 0
     = Inr ((example_store [(1, example_entry (Some \<lparr>mRefCount = 0, held = []\<rparr>) 5 0)] [1] (\<lambda>p. None))
              \<lparr>mTransientRoots := [''chars/'']\<rparr>, 1)"
  by (simp add: example_chain_def store_example_simps Unload_def Release_def update_entry_def
      DeleteResourceEntry_def map_erase_def Let_def)

lemma example_chain_second_pass:
  "DestroyUnreferencedResources_pass []
       (mLoadedResources
          ((example_store [(1, example_entry (Some \<lparr>mRefCount = 0, held = []\<rparr>) 5 0)] [1] (\<lambda>p. None))
              \<lparr>mTransientRoots := [''chars/'']\<rparr>))
       ((example_store [(1, example_entry (Some \<lparr>mRefCount = 0, held = []\<rparr>) 5 0)] [1] (\<lambda>p. None))
              \<lparr>mTransientRoots := [''chars/'']\<rparr>) 0
     = Inr ((example_store [(1, example_entry None 5 0)] [] (\<lambda>p. None))
              \<lparr>mTransientRoots := [''chars/'']\<rparr>, 1)"
  by (simp add: store_example_simps Unload_def Release_def update_entry_def
      DeleteResourceEntry_def map_erase_def Let_def)

lemma example_chain_third_pass:
  "DestroyUnreferencedResources_pass []
       (mLoadedResources
          ((example_store [(1, example_entry None 5 0)] [] (\<lambda>p. None))\<lparr>mTransientRoots := [''chars/'']\<rparr>))
       ((example_store [(1, example_entry None 5 0)] [] (\<lambda>p. None))\<lparr>mTransientRoots := [''chars/'']\<rparr>) 0
     = Inr ((example_store [(1, example_entry None 5 0)] [] (\<lambda>p. None))
              \<lparr>mTransientRoots := [''chars/'']\<rparr>, 0)"
  by (simp add: example_store_def)

lemma example_chain_loop:
  "DestroyUnreferencedResources_loop example_chain
     = Inr ((example_store [(1, example_entry None 5 0)] [] (\<lambda>p. None))
              \<lparr>mTransientRoots := [''chars/'']\<rparr>)"
proof -
  have 3: "DestroyUnreferencedResources_loop
          ((example_store [(1, example_entry None 5 0)] [] (\<lambda>p. None))\<lparr>mTransientRoots := [''chars/'']\<rparr>)
        = Inr ((example_store [(1, example_entry None 5 0)] [] (\<lambda>p. None))
                 \<lparr>mTransientRoots := [''chars/'']\<rparr>)"
    by (subst DestroyUnreferencedResources_loop.simps) (simp only: example_chain_third_pass, simp)
  have 2: "DestroyUnreferencedResources_loop
          ((example_store [(1, example_entry (Some \<lparr>mRefCount = 0, held = []\<rparr>) 5 0)] [1] (\<lambda>p. None))
              \<lparr>mTransientRoots := [''chars/'']\<rparr>)
        = Inr ((example_store [(1, example_entry None 5 0)] [] (\<lambda>p. None))
                 \<lparr>mTransientRoots := [''chars/'']\<rparr>)"
    using 3
    by (subst DestroyUnreferencedResources_loop.simps)
       (simp only: example_chain_second_pass, simp)
  show ?thesis
    using 2
    by (subst DestroyUnreferencedResources_loop.simps)
       (simp only: example_chain_first_pass, simp)
qed

text \<open>
  C3, on the code. On the example chain the loop of \<open>DestroyUnreferencedResources\<close> does what
  the claim says: it runs its scan three times, unloads the entry 2 and then the entry 1,
  and erases the transient entry 2 from the entries map. The call does not end there.
  With the entry 2 deleted its transient root is empty, the only and so the last root of
  \<open>mTransientRoots\<close>; the sweep erases it and the loop header increments the iterator that
  \<^verbatim>\<open>erase\<close> left at \<^verbatim>\<open>end()\<close>. The call does not return the store with both entries unloaded.
\<close>

theorem DestroyUnreferencedResources_sweeps_past_the_last_root:
  "DestroyUnreferencedResources_loop example_chain
       = Inr ((example_store [(1, example_entry None 5 0)] [] (\<lambda>p. None))
                \<lparr>mTransientRoots := [''chars/'']\<rparr>)
   \<and> DestroyEmptyRoots example_X [(1, example_entry None 5 0)] [] [''chars/''] = Inl IteratorPastEnd
   \<and> DestroyUnreferencedResources example_X example_chain = Inl IteratorPastEnd"
proof -
  have sweep: "DestroyEmptyRoots example_X [(1, example_entry None 5 0)] [] [''chars/'']
                 = Inl IteratorPastEnd"
    by (simp add: store_example_simps)
  have "DestroyUnreferencedResources example_X example_chain = Inl IteratorPastEnd"
    by (simp add: DestroyUnreferencedResources_def example_chain_loop, simp add: store_example_simps)
  with sweep example_chain_loop show ?thesis
    by simp
qed

end
